theory Spec2Isabelle
  imports Complex_Main "HOL-Library.Stream"
begin

section \<open>The p5.js runtime the sketch is written against\<close>

text \<open>
  JavaScript numbers are modelled as reals (no rounding, no NaN, no infinities) and a 2D vector
  as a pair.  A p5 colour object is known by how it was made: by \<open>color(c)\<close> from a hex string,
  or by \<open>lerpColor(c1, c2, amt)\<close> from two colours; which components the blend has depends on
  the colour mode and on the version of p5, and is not modelled.  The exceptions a frame can
  raise are values of \<open>js_error\<close>: the \<open>Error\<close> thrown by the abstract drawer, and the exception
  that p5's \<open>lerpColor\<close> raises when it is handed \<open>undefined\<close> (a \<open>TypeError\<close> or an \<open>Error\<close>
  with p5's own message, depending on the version of p5), here \<open>ColorArgumentError\<close>.  A method
  that mutates its object returns the new object; one that can throw returns \<open>Inl\<close> of the
  error in place of it, and the exception ends the frame.
\<close>

type_synonym vec = "real \<times> real"

datatype color = Color string | Blend color color real

datatype js_error = Error string | ColorArgumentError

datatype angle_mode = RADIANS | DEGREES

text \<open>p5 converts every angle through the current angle mode before calling \<open>Math.sin\<close>,
  \<open>Math.cos\<close> or the canvas rotation.\<close>

definition p5_toRadians :: "angle_mode \<Rightarrow> real \<Rightarrow> real" where
  "p5_toRadians m a = (case m of DEGREES \<Rightarrow> a * pi / 180 | RADIANS \<Rightarrow> a)"

definition p5_sin :: "angle_mode \<Rightarrow> real \<Rightarrow> real" where
  "p5_sin m a = sin (p5_toRadians m a)"

definition p5_cos :: "angle_mode \<Rightarrow> real \<Rightarrow> real" where
  "p5_cos m a = cos (p5_toRadians m a)"

definition p5_floor :: "real \<Rightarrow> real" where
  "p5_floor x = real_of_int \<lfloor>x\<rfloor>"

text \<open>The JavaScript remainder \<open>a % b\<close>: the quotient is truncated towards zero, so the
  result has the sign of the dividend.\<close>

definition js_rem :: "real \<Rightarrow> real \<Rightarrow> real" where
  "js_rem a b = a - b * real_of_int (if 0 \<le> a / b then \<lfloor>a / b\<rfloor> else \<lceil>a / b\<rceil>)"

text \<open>Array indexing \<open>xs[i]\<close> with a number: \<open>undefined\<close> (here \<open>None\<close>) unless \<open>i\<close> is an
  integer within the array.\<close>

definition js_index :: "'a list \<Rightarrow> real \<Rightarrow> 'a option" where
  "js_index xs i =
     (if real_of_int \<lfloor>i\<rfloor> = i \<and> 0 \<le> i \<and> i < real (length xs)
      then Some (xs ! nat \<lfloor>i\<rfloor>) else None)"

text \<open>\<open>lerpColor(c1, c2, amt)\<close>: throws when one of the two colours is \<open>undefined\<close>, and
  returns the blend otherwise.\<close>

definition p5_lerpColor :: "color option \<Rightarrow> color option \<Rightarrow> real \<Rightarrow> js_error + color" where
  "p5_lerpColor c1 c2 amt =
     (case c1 of None \<Rightarrow> Inl ColorArgumentError
      | Some from_c \<Rightarrow>
          (case c2 of None \<Rightarrow> Inl ColorArgumentError
           | Some to_c \<Rightarrow> Inr (Blend from_c to_c amt)))"

text \<open>\<open>random(lo, hi)\<close> draws from a source of uniform numbers in \<open>[0, 1)\<close>, modelled as a
  stream that is threaded through the constructors.\<close>

type_synonym rng = "real stream"

definition p5_random :: "real \<Rightarrow> real \<Rightarrow> rng \<Rightarrow> real \<times> rng" where
  "p5_random lo hi rs = (shd rs * (hi - lo) + lo, stl rs)"

definition TWO_PI :: real where
  "TWO_PI = 2 * pi"

subsection \<open>The canvas: current transform, style, and the lines drawn so far\<close>

text \<open>An affine transform \<open>(a, b, c, d, e, f)\<close> maps \<open>(x, y)\<close> to
  \<open>(a x + c y + e, b x + d y + f)\<close>, as the 2D canvas context does.  Every transform call
  multiplies the current matrix on the right.\<close>

record transform =
  m_a :: real
  m_b :: real
  m_c :: real
  m_d :: real
  m_e :: real
  m_f :: real

definition identity_t :: transform where
  "identity_t = \<lparr>m_a = 1, m_b = 0, m_c = 0, m_d = 1, m_e = 0, m_f = 0\<rparr>"

definition mult_t :: "transform \<Rightarrow> transform \<Rightarrow> transform" where
  "mult_t A B =
     \<lparr>m_a = m_a A * m_a B + m_c A * m_b B,
      m_b = m_b A * m_a B + m_d A * m_b B,
      m_c = m_a A * m_c B + m_c A * m_d B,
      m_d = m_b A * m_c B + m_d A * m_d B,
      m_e = m_a A * m_e B + m_c A * m_f B + m_e A,
      m_f = m_b A * m_e B + m_d A * m_f B + m_f A\<rparr>"

definition rotation_t :: "real \<Rightarrow> transform" where
  "rotation_t r = \<lparr>m_a = cos r, m_b = sin r, m_c = - sin r, m_d = cos r, m_e = 0, m_f = 0\<rparr>"

definition scaling_t :: "real \<Rightarrow> real \<Rightarrow> transform" where
  "scaling_t sx sy = \<lparr>m_a = sx, m_b = 0, m_c = 0, m_d = sy, m_e = 0, m_f = 0\<rparr>"

definition translation_t :: "real \<Rightarrow> real \<Rightarrow> transform" where
  "translation_t tx ty = \<lparr>m_a = 1, m_b = 0, m_c = 0, m_d = 1, m_e = tx, m_f = ty\<rparr>"

definition apply_t :: "transform \<Rightarrow> vec \<Rightarrow> vec" where
  "apply_t M p =
     (m_a M * fst p + m_c M * snd p + m_e M, m_b M * fst p + m_d M * snd p + m_f M)"

record segment =
  seg_from :: vec
  seg_to :: vec
  seg_color :: color
  seg_weight :: real

record canvas =
  ctm :: transform
  strokeColor :: color
  weight :: real
  saved :: "(transform \<times> color \<times> real) list"
  drawn :: "segment list"

definition p5_rotate :: "angle_mode \<Rightarrow> real \<Rightarrow> canvas \<Rightarrow> canvas" where
  "p5_rotate m a cv = cv\<lparr>ctm := mult_t (ctm cv) (rotation_t (p5_toRadians m a))\<rparr>"

definition p5_scale :: "real \<Rightarrow> real \<Rightarrow> canvas \<Rightarrow> canvas" where
  "p5_scale sx sy cv = cv\<lparr>ctm := mult_t (ctm cv) (scaling_t sx sy)\<rparr>"

definition p5_translate :: "real \<Rightarrow> real \<Rightarrow> canvas \<Rightarrow> canvas" where
  "p5_translate tx ty cv = cv\<lparr>ctm := mult_t (ctm cv) (translation_t tx ty)\<rparr>"

definition p5_resetMatrix :: "canvas \<Rightarrow> canvas" where
  "p5_resetMatrix cv = cv\<lparr>ctm := identity_t\<rparr>"

definition p5_stroke :: "color \<Rightarrow> canvas \<Rightarrow> canvas" where
  "p5_stroke c cv = cv\<lparr>strokeColor := c\<rparr>"

definition p5_strokeWeight :: "real \<Rightarrow> canvas \<Rightarrow> canvas" where
  "p5_strokeWeight w cv = cv\<lparr>weight := w\<rparr>"

definition p5_push :: "canvas \<Rightarrow> canvas" where
  "p5_push cv = cv\<lparr>saved := (ctm cv, strokeColor cv, weight cv) # saved cv\<rparr>"

definition p5_pop :: "canvas \<Rightarrow> canvas" where
  "p5_pop cv =
     (case saved cv of [] \<Rightarrow> cv
      | (M, c, w) # rest \<Rightarrow> cv\<lparr>ctm := M, strokeColor := c, weight := w, saved := rest\<rparr>)"

definition p5_line :: "real \<Rightarrow> real \<Rightarrow> real \<Rightarrow> real \<Rightarrow> canvas \<Rightarrow> canvas" where
  "p5_line x1 y1 x2 y2 cv =
     cv\<lparr>drawn := drawn cv @
        [\<lparr>seg_from = apply_t (ctm cv) (x1, y1), seg_to = apply_t (ctm cv) (x2, y2),
          seg_color = strokeColor cv, seg_weight = weight cv\<rparr>]\<rparr>"

section \<open>The sketch\<close>

subsection \<open>Globals\<close>

text \<open>The module-level variables the drawers read, together with the p5 globals
  (\<open>width\<close>, \<open>height\<close>, the mouse, the angle mode).  \<open>strokeWeightSlider\<close> holds the slider's
  value when the slider exists.\<close>

record globals =
  symmetry :: nat
  angle :: real
  drawRadius :: real
  autoPaused :: bool
  angleMode :: angle_mode
  strokeWeightSlider :: "real option"
  width :: real
  height :: real
  mouseIsPressed :: bool
  mouseX :: real
  mouseY :: real
  pmouseX :: real
  pmouseY :: real

definition hexPalette :: "string list" where
  "hexPalette =
     [''#232327ff'', ''#A7A5A3ff'', ''#E5E5E3ff'', ''#131213ff'', ''#32384Dff'', ''#959494ff'']"

text \<open>\<open>setup\<close> switches the angle mode to degrees; \<open>draw\<close> re-reads the symmetry slider at
  the start of every frame and derives the rotation step from it.\<close>

definition setup_angleMode :: "globals \<Rightarrow> globals" where
  "setup_angleMode g = g\<lparr>angleMode := DEGREES\<rparr>"

definition draw_read_symmetry :: "nat \<Rightarrow> globals \<Rightarrow> globals" where
  "draw_read_symmetry slider g = g\<lparr>symmetry := slider, angle := 360 / real slider\<rparr>"

definition toggleAutoPause :: "globals \<Rightarrow> globals" where
  "toggleAutoPause g = g\<lparr>autoPaused := \<not> autoPaused g\<rparr>"

subsection \<open>Colour cycling (the same code in both drawers)\<close>

text \<open>Fields that several classes declare are declared once: \<open>ColorCycle\<close> holds the three
  fields of \<open>MouseDrawer\<close>, which every \<open>SinusoidalDrawer\<close> has as well; \<open>Trajectory\<close> below adds
  the fields that the \<open>SinusoidalDrawer\<close> classes of the two files have in common.\<close>

record ColorCycle =
  palette :: "color list"
  colorInterpolation :: real
  colorInterpolationSpeed :: real

text \<open>The colour of a frame from the palette and the cursor already advanced by the speed.
  For an empty palette the remainder is \<open>NaN\<close> in JavaScript and both lookups are
  \<open>undefined\<close>; here the lookups in an empty palette are \<open>None\<close> for every index.\<close>

definition calculate_color :: "color list \<Rightarrow> real \<Rightarrow> js_error + color" where
  "calculate_color pal ci =
     (let t_color = js_rem ci (real (length pal));
          color1Index = p5_floor t_color;
          color2Index = js_rem (color1Index + 1) (real (length pal));
          interpolationFactor = t_color - color1Index;
          color1 = js_index pal color1Index;
          color2 = js_index pal color2Index
      in p5_lerpColor color1 color2 interpolationFactor)"

subsection \<open>The kaleidoscope drawing loop (the same code in both drawers)\<close>

text \<open>One iteration and the loop.  \<open>src/unnamed/part_000\<close> takes the stroke weight from the
  slider when there is one; \<open>src/sketch.js\<close> has no such slider and always sets 1.5, which is
  the case \<open>strokeWeightSlider = None\<close>.\<close>

definition loop_body :: "globals \<Rightarrow> vec \<Rightarrow> vec \<Rightarrow> color \<Rightarrow> canvas \<Rightarrow> canvas" where
  "loop_body g p q currentColor cv =
     (let cv1 = p5_rotate (angleMode g) (angle g) cv;
          cv2 = p5_stroke currentColor cv1;
          cv3 = p5_strokeWeight
                  (case strokeWeightSlider g of Some v \<Rightarrow> v | None \<Rightarrow> 1.5) cv2;
          cv4 = p5_line (fst p) (snd p) (fst q) (snd q) cv3;
          cv5 = p5_push cv4;
          cv6 = p5_scale 1 (- 1) cv5;
          cv7 = p5_line (fst p) (snd p) (fst q) (snd q) cv6
      in p5_pop cv7)"

function kaleidoscope_loop ::
  "globals \<Rightarrow> nat \<Rightarrow> vec \<Rightarrow> vec \<Rightarrow> color \<Rightarrow> canvas \<Rightarrow> canvas" where
  "kaleidoscope_loop g i p q currentColor cv =
     (if i < symmetry g
      then kaleidoscope_loop g (Suc i) p q currentColor (loop_body g p q currentColor cv)
      else cv)"
  by pat_completeness auto
termination
  by (relation "measure (\<lambda>(g, i, p, q, c, cv). symmetry g - i)") auto

declare kaleidoscope_loop.simps [simp del]

subsection \<open>MouseDrawer\<close>

type_synonym MouseDrawer = ColorCycle

definition MouseDrawer_constructor :: MouseDrawer where
  "MouseDrawer_constructor =
     \<lparr>palette = map Color hexPalette, colorInterpolation = 0,
      colorInterpolationSpeed = 0.01\<rparr>"

definition MouseDrawer_draw ::
  "globals \<Rightarrow> MouseDrawer \<times> canvas \<Rightarrow> js_error + (MouseDrawer \<times> canvas)" where
  "MouseDrawer_draw g sc =
     (let self = fst sc; cv = snd sc
      in if mouseIsPressed g \<and> mouseX g > 0 \<and> mouseX g < width g
            \<and> mouseY g > 0 \<and> mouseY g < height g
         then
           (let lineStart = (mouseX g - width g / 2, mouseY g - height g / 2);
                lineEnd = (pmouseX g - width g / 2, pmouseY g - height g / 2);
                self1 = self\<lparr>colorInterpolation :=
                          colorInterpolation self + colorInterpolationSpeed self\<rparr>
            in case calculate_color (palette self1) (colorInterpolation self1) of
                 Inl e \<Rightarrow> Inl e
               | Inr currentColor \<Rightarrow>
                   Inr (self1, kaleidoscope_loop g 0 lineStart lineEnd currentColor cv))
         else Inr (self, cv))"

subsection \<open>ProceduralDrawer, the abstract base\<close>

definition ProceduralDrawer_update :: "'s \<Rightarrow> js_error + 's" where
  "ProceduralDrawer_update self =
     Inl (Error ''Method 'update()' must be implemented by subclass'')"

definition ProceduralDrawer_draw :: "'s \<Rightarrow> js_error + 's" where
  "ProceduralDrawer_draw self =
     Inl (Error ''Method 'draw()' must be implemented by subclass'')"

subsection \<open>SinusoidalWave\<close>

record SinusoidalWave =
  radius :: real
  freq :: real
  phase :: real
  phaseInc :: real
  mode :: string

definition SinusoidalWave_constructor ::
  "real option \<Rightarrow> real option \<Rightarrow> real option \<Rightarrow> real option \<Rightarrow> string option \<Rightarrow> rng
     \<Rightarrow> SinusoidalWave \<times> rng" where
  "SinusoidalWave_constructor a_radius a_freq a_phase a_phaseInc a_mode rs =
     (let drift = (case a_phaseInc of Some v \<Rightarrow> (v, rs) | None \<Rightarrow> p5_random 0.0005 0.005 rs)
      in (\<lparr>radius = (case a_radius of Some v \<Rightarrow> v | None \<Rightarrow> 0),
           freq = (case a_freq of Some v \<Rightarrow> v | None \<Rightarrow> 1),
           phase = (case a_phase of Some v \<Rightarrow> v | None \<Rightarrow> 0),
           phaseInc = fst drift,
           mode = (case a_mode of Some v \<Rightarrow> v | None \<Rightarrow> ''sin'')\<rparr>, snd drift))"

definition wave_value :: "globals \<Rightarrow> SinusoidalWave \<Rightarrow> real \<Rightarrow> real" where
  "wave_value g w tm =
     (if mode w = ''sin''
      then p5_sin (angleMode g) (tm * freq w + phase w) * radius w
      else p5_cos (angleMode g) (tm * freq w + phase w) * radius w)"

definition incrementPhase :: "SinusoidalWave \<Rightarrow> SinusoidalWave" where
  "incrementPhase w = w\<lparr>phase := phase w + phaseInc w\<rparr>"

definition setPhaseInc :: "real \<Rightarrow> SinusoidalWave \<Rightarrow> SinusoidalWave" where
  "setPhaseInc v w = w\<lparr>phaseInc := v\<rparr>"

subsection \<open>SinusoidalDrawer (list-based variant, \<open>src/unnamed/part_000\<close>)\<close>

record Trajectory = ColorCycle +
  pos :: vec
  prevPos :: vec
  t :: real
  tIncrement :: real

record SinusoidalDrawer = Trajectory +
  xWaves :: "SinusoidalWave list"
  yWaves :: "SinusoidalWave list"

text \<open>One entry of a wave configuration array; an absent property is \<open>None\<close>.\<close>

record wave_cfg =
  cfg_radius :: "real option"
  cfg_freq :: "real option"
  cfg_phase :: "real option"
  cfg_phaseInc :: "real option"
  cfg_mode :: "string option"

text \<open>The options object; an absent property is \<open>None\<close>.  The numbered properties
  (\<open>r1\<close> .. \<open>r4\<close>, \<open>f1\<close> .. \<open>f4\<close>, \<open>phiInc1\<close> .. \<open>phiInc4\<close>) are indexed by their number; they
  and \<open>phases\<close>, \<open>phiIncs\<close> are read by the constructor of \<open>src/sketch.js\<close> only.  \<open>xWaves\<close> and
  \<open>yWaves\<close> are the oscillator lists that the constructor of \<open>src/unnamed/part_000\<close> documents.\<close>

record opts =
  opt_t :: "real option"
  opt_tIncrement :: "real option"
  opt_xWaves :: "wave_cfg list option"
  opt_yWaves :: "wave_cfg list option"
  opt_palette :: "string list option"
  opt_colorInterpolation :: "real option"
  opt_colorInterpolationSpeed :: "real option"
  opt_r :: "nat \<Rightarrow> real option"
  opt_f :: "nat \<Rightarrow> real option"
  opt_phases :: "real list option"
  opt_phiIncs :: "real list option"
  opt_phiInc :: "nat \<Rightarrow> real option"

definition no_opts :: opts where
  "no_opts =
     \<lparr>opt_t = None, opt_tIncrement = None, opt_xWaves = None, opt_yWaves = None,
      opt_palette = None, opt_colorInterpolation = None,
      opt_colorInterpolationSpeed = None, opt_r = (\<lambda>_. None), opt_f = (\<lambda>_. None),
      opt_phases = None, opt_phiIncs = None, opt_phiInc = (\<lambda>_. None)\<rparr>"

fun createWavesFromConfig :: "globals \<Rightarrow> wave_cfg list \<Rightarrow> rng \<Rightarrow> SinusoidalWave list \<times> rng" where
  "createWavesFromConfig g [] rs = ([], rs)"
| "createWavesFromConfig g (cfg # cfgs) rs =
     (let c_radius = (case cfg_radius cfg of Some v \<Rightarrow> v | None \<Rightarrow> drawRadius g * 0.4);
          c_freq = (case cfg_freq cfg of Some v \<Rightarrow> v | None \<Rightarrow> 1.0);
          c_phase = (case cfg_phase cfg of Some v \<Rightarrow> (v, rs) | None \<Rightarrow> p5_random 0 TWO_PI rs);
          c_phaseInc = (case cfg_phaseInc cfg of Some v \<Rightarrow> (v, snd c_phase)
                        | None \<Rightarrow> p5_random 0.0005 0.005 (snd c_phase));
          c_mode = (case cfg_mode cfg of Some v \<Rightarrow> v | None \<Rightarrow> ''sin'');
          w = SinusoidalWave_constructor (Some c_radius) (Some c_freq) (Some (fst c_phase))
                (Some (fst c_phaseInc)) (Some c_mode) (snd c_phaseInc);
          ws = createWavesFromConfig g cfgs (snd w)
      in (fst w # fst ws, snd ws))"

text \<open>\<open>opts.palette && opts.palette.length ? opts.palette : hexPalette\<close>\<close>

definition usedHexPalette :: "opts \<Rightarrow> string list" where
  "usedHexPalette os =
     (case opt_palette os of Some pl \<Rightarrow> (if length pl \<noteq> 0 then pl else hexPalette)
      | None \<Rightarrow> hexPalette)"

definition SinusoidalDrawer_constructor :: "globals \<Rightarrow> opts \<Rightarrow> rng \<Rightarrow> SinusoidalDrawer \<times> rng" where
  "SinusoidalDrawer_constructor g os rs =
     (let xw = createWavesFromConfig g
                 [\<lparr>cfg_radius = Some (drawRadius g * 1.0), cfg_freq = Some 10.0,
                   cfg_phase = None, cfg_phaseInc = Some 0.1, cfg_mode = Some ''sin''\<rparr>] rs;
          yw = createWavesFromConfig g [] (snd xw)
      in (\<lparr>palette = map Color (usedHexPalette os),
           colorInterpolation = (case opt_colorInterpolation os of Some v \<Rightarrow> v | None \<Rightarrow> 0),
           colorInterpolationSpeed =
             (case opt_colorInterpolationSpeed os of Some v \<Rightarrow> v | None \<Rightarrow> 0.01),
           pos = (0, 0),
           prevPos = (0, 0),
           t = (case opt_t os of Some v \<Rightarrow> v | None \<Rightarrow> 0),
           tIncrement = (case opt_tIncrement os of Some v \<Rightarrow> v | None \<Rightarrow> 10),
           xWaves = fst xw,
           yWaves = fst yw\<rparr>, snd yw))"

text \<open>\<open>let x = 0; for (let wave of waves) x += wave.value(this.t)\<close>\<close>

definition sum_waves :: "globals \<Rightarrow> SinusoidalWave list \<Rightarrow> real \<Rightarrow> real" where
  "sum_waves g ws tm = foldl (\<lambda>acc w. acc + wave_value g w tm) 0 ws"

definition SinusoidalDrawer_update :: "globals \<Rightarrow> SinusoidalDrawer \<Rightarrow> SinusoidalDrawer" where
  "SinusoidalDrawer_update g self =
     (if autoPaused g then self
      else
        (let self1 = self\<lparr>prevPos := pos self\<rparr>;
             x = sum_waves g (xWaves self1) (t self1);
             y = sum_waves g (yWaves self1) (t self1);
             self2 = self1\<lparr>pos := (x, y)\<rparr>;
             self3 = self2\<lparr>t := t self2 + tIncrement self2\<rparr>;
             self4 = self3\<lparr>xWaves := map incrementPhase (xWaves self3)\<rparr>
         in self4\<lparr>yWaves := map incrementPhase (yWaves self4)\<rparr>))"

definition SinusoidalDrawer_draw ::
  "globals \<Rightarrow> SinusoidalDrawer \<times> canvas \<Rightarrow> js_error + (SinusoidalDrawer \<times> canvas)" where
  "SinusoidalDrawer_draw g sc =
     (let self1 = SinusoidalDrawer_update g (fst sc); cv = snd sc
      in if t self1 \<le> tIncrement self1
         then Inr (self1\<lparr>prevPos := pos self1\<rparr>, cv)
         else
           (let self2 = self1\<lparr>colorInterpolation :=
                          colorInterpolation self1 + colorInterpolationSpeed self1\<rparr>
            in case calculate_color (palette self2) (colorInterpolation self2) of
                 Inl e \<Rightarrow> Inl e
               | Inr currentColor \<Rightarrow>
                   Inr (self2,
                        kaleidoscope_loop g 0 (pos self2) (prevPos self2) currentColor cv)))"

subsection \<open>SinusoidalDrawer (four-wave variant, \<open>src/sketch.js\<close>)\<close>

text \<open>The four-wave drawer keeps its radii, frequencies and phases in fields that only the
  constructor reads; the record holds the waves built from them.\<close>

record SinusoidalDrawer4 = Trajectory +
  wave1 :: SinusoidalWave
  wave2 :: SinusoidalWave
  wave3 :: SinusoidalWave
  wave4 :: SinusoidalWave

text \<open>Four consecutive draws \<open>random(lo, hi)\<close>.\<close>

definition random4 :: "real \<Rightarrow> real \<Rightarrow> rng \<Rightarrow> real list \<times> rng" where
  "random4 lo hi rs =
     (let d1 = p5_random lo hi rs; d2 = p5_random lo hi (snd d1);
          d3 = p5_random lo hi (snd d2); d4 = p5_random lo hi (snd d3)
      in ([fst d1, fst d2, fst d3, fst d4], snd d4))"

definition phiInc_default :: "opts \<Rightarrow> nat \<Rightarrow> rng \<Rightarrow> real \<times> rng" where
  "phiInc_default os k rs =
     (case opt_phiInc os k of Some v \<Rightarrow> (v, rs) | None \<Rightarrow> p5_random 0.0005 0.005 rs)"

definition SinusoidalDrawer4_constructor ::
  "globals \<Rightarrow> opts \<Rightarrow> rng \<Rightarrow> SinusoidalDrawer4 \<times> rng" where
  "SinusoidalDrawer4_constructor g os rs =
     (let r1 = (case opt_r os 1 of Some v \<Rightarrow> v | None \<Rightarrow> drawRadius g * 0.4);
          r2 = (case opt_r os 2 of Some v \<Rightarrow> v | None \<Rightarrow> drawRadius g * 0.4);
          f1 = (case opt_f os 1 of Some v \<Rightarrow> v | None \<Rightarrow> 1.0);
          f2 = (case opt_f os 2 of Some v \<Rightarrow> v | None \<Rightarrow> 2.5);
          r3 = (case opt_r os 3 of Some v \<Rightarrow> v | None \<Rightarrow> drawRadius g * 0.4);
          r4 = (case opt_r os 4 of Some v \<Rightarrow> v | None \<Rightarrow> drawRadius g * 0.4);
          f3 = (case opt_f os 3 of Some v \<Rightarrow> v | None \<Rightarrow> 1.5);
          f4 = (case opt_f os 4 of Some v \<Rightarrow> v | None \<Rightarrow> 3.0);
          phis = (case opt_phases os of
                    Some ps \<Rightarrow> (if length ps \<ge> 4 then (take 4 ps, rs) else random4 0 TWO_PI rs)
                  | None \<Rightarrow> random4 0 TWO_PI rs);
          phiIncs = (case opt_phiIncs os of
                       Some ps \<Rightarrow> (if length ps \<ge> 4 then Some (take 4 ps) else None)
                     | None \<Rightarrow> None);
          i1 = (case phiIncs of Some ps \<Rightarrow> (ps ! 0, snd phis)
                | None \<Rightarrow> phiInc_default os 1 (snd phis));
          i2 = (case phiIncs of Some ps \<Rightarrow> (ps ! 1, snd i1)
                | None \<Rightarrow> phiInc_default os 2 (snd i1));
          i3 = (case phiIncs of Some ps \<Rightarrow> (ps ! 2, snd i2)
                | None \<Rightarrow> phiInc_default os 3 (snd i2));
          i4 = (case phiIncs of Some ps \<Rightarrow> (ps ! 3, snd i3)
                | None \<Rightarrow> phiInc_default os 4 (snd i3));
          w1 = SinusoidalWave_constructor (Some r1) (Some f1) (Some (fst phis ! 0))
                 (Some (fst i1)) (Some ''sin'') (snd i4);
          w2 = SinusoidalWave_constructor (Some r2) (Some f2) (Some (fst phis ! 1))
                 (Some (fst i2)) (Some ''sin'') (snd w1);
          w3 = SinusoidalWave_constructor (Some r3) (Some f3) (Some (fst phis ! 2))
                 (Some (fst i3)) (Some ''cos'') (snd w2);
          w4 = SinusoidalWave_constructor (Some r4) (Some f4) (Some (fst phis ! 3))
                 (Some (fst i4)) (Some ''cos'') (snd w3)
      in (\<lparr>palette = map Color (usedHexPalette os),
           colorInterpolation = (case opt_colorInterpolation os of Some v \<Rightarrow> v | None \<Rightarrow> 0),
           colorInterpolationSpeed =
             (case opt_colorInterpolationSpeed os of Some v \<Rightarrow> v | None \<Rightarrow> 0.01),
           pos = (0, 0),
           prevPos = (0, 0),
           t = (case opt_t os of Some v \<Rightarrow> v | None \<Rightarrow> 0),
           tIncrement = (case opt_tIncrement os of Some v \<Rightarrow> v | None \<Rightarrow> 10),
           wave1 = fst w1, wave2 = fst w2, wave3 = fst w3, wave4 = fst w4\<rparr>, snd w4))"

definition SinusoidalDrawer4_update :: "globals \<Rightarrow> SinusoidalDrawer4 \<Rightarrow> SinusoidalDrawer4" where
  "SinusoidalDrawer4_update g self =
     (if autoPaused g then self
      else
        (let self1 = self\<lparr>prevPos := pos self\<rparr>;
             x = wave_value g (wave1 self1) (t self1) + wave_value g (wave2 self1) (t self1);
             y = wave_value g (wave3 self1) (t self1) + wave_value g (wave4 self1) (t self1);
             self2 = self1\<lparr>pos := (x, y)\<rparr>;
             self3 = self2\<lparr>t := t self2 + tIncrement self2\<rparr>
         in self3\<lparr>wave1 := incrementPhase (wave1 self3), wave2 := incrementPhase (wave2 self3),
                  wave3 := incrementPhase (wave3 self3), wave4 := incrementPhase (wave4 self3)\<rparr>))"

subsection \<open>Polymorphic dispatch of \<open>currentDrawer.draw()\<close>\<close>

datatype drawer =
    Mouse MouseDrawer
  | Procedural
  | Sinusoidal SinusoidalDrawer

definition drawer_draw :: "globals \<Rightarrow> drawer \<times> canvas \<Rightarrow> js_error + (drawer \<times> canvas)" where
  "drawer_draw g dc =
     (case fst dc of
        Mouse m \<Rightarrow> map_sum id (\<lambda>(m', cv). (Mouse m', cv)) (MouseDrawer_draw g (m, snd dc))
      | Procedural \<Rightarrow> ProceduralDrawer_draw dc
      | Sinusoidal s \<Rightarrow>
          map_sum id (\<lambda>(s', cv). (Sinusoidal s', cv)) (SinusoidalDrawer_draw g (s, snd dc)))"

text \<open>The frame loop on the procedural drawer: \<open>k\<close> consecutive calls of \<open>draw()\<close>, stopping
  at the first exception.  The canvas is handed from one call to the next as it is; p5 resets
  the transform at the start of every frame, and with the rotation step of a frame the loop
  itself ends on the transform it started from.\<close>

fun draw_steps ::
  "globals \<Rightarrow> nat \<Rightarrow> SinusoidalDrawer \<times> canvas \<Rightarrow> js_error + (SinusoidalDrawer \<times> canvas)" where
  "draw_steps g 0 sc = Inr sc"
| "draw_steps g (Suc k) sc =
     (case draw_steps g k sc of Inl e \<Rightarrow> Inl e | Inr sc' \<Rightarrow> SinusoidalDrawer_draw g sc')"

section \<open>Vocabulary for the properties\<close>

text \<open>The rotation step in radians, the stroke weight the loop sets, and the two segments one
  loop iteration is expected to add: copy \<open>k\<close> (counted from 0) is drawn after \<open>k + 1\<close>
  rotations of the transform \<open>M\<close> the loop started from.\<close>

definition loop_angle :: "globals \<Rightarrow> real" where
  "loop_angle g = p5_toRadians (angleMode g) (angle g)"

definition stroke_weight :: "globals \<Rightarrow> real" where
  "stroke_weight g = (case strokeWeightSlider g of Some v \<Rightarrow> v | None \<Rightarrow> 1.5)"

definition negate_y :: "vec \<Rightarrow> vec" where
  "negate_y p = (fst p, - snd p)"

definition copy_ctm :: "globals \<Rightarrow> transform \<Rightarrow> nat \<Rightarrow> transform" where
  "copy_ctm g M k = mult_t M (rotation_t (real (Suc k) * loop_angle g))"

definition rotated_copy ::
  "globals \<Rightarrow> transform \<Rightarrow> vec \<Rightarrow> vec \<Rightarrow> color \<Rightarrow> nat \<Rightarrow> segment" where
  "rotated_copy g M p q c k =
     \<lparr>seg_from = apply_t (copy_ctm g M k) p, seg_to = apply_t (copy_ctm g M k) q,
      seg_color = c, seg_weight = stroke_weight g\<rparr>"

definition mirrored_copy ::
  "globals \<Rightarrow> transform \<Rightarrow> vec \<Rightarrow> vec \<Rightarrow> color \<Rightarrow> nat \<Rightarrow> segment" where
  "mirrored_copy g M p q c k =
     \<lparr>seg_from = apply_t (copy_ctm g M k) (negate_y p),
      seg_to = apply_t (copy_ctm g M k) (negate_y q),
      seg_color = c, seg_weight = stroke_weight g\<rparr>"

definition copies ::
  "globals \<Rightarrow> transform \<Rightarrow> vec \<Rightarrow> vec \<Rightarrow> color \<Rightarrow> nat \<Rightarrow> segment list" where
  "copies g M p q c n =
     concat (map (\<lambda>k. [rotated_copy g M p q c k, mirrored_copy g M p q c k]) [0..<n])"

text \<open>Concrete values: the globals as \<open>setup\<close> leaves them with the sliders at their defaults
  (canvas 1000 by 1000, vinyl size 0.85, stroke weight 3), an empty canvas whose transform is the
  identity, and a procedural drawer in the middle of a run.\<close>

definition globals_after_setup :: globals where
  "globals_after_setup =
     \<lparr>symmetry = 12, angle = 30, drawRadius = 425, autoPaused = False, angleMode = DEGREES,
      strokeWeightSlider = Some 3, width = 1000, height = 1000, mouseIsPressed = False,
      mouseX = 0, mouseY = 0, pmouseX = 0, pmouseY = 0\<rparr>"

definition black :: color where
  "black = Color ''#000000ff''"

definition blank_canvas :: canvas where
  "blank_canvas =
     \<lparr>ctm = identity_t, strokeColor = black, weight = 1, saved = [], drawn = []\<rparr>"

definition running_drawer :: SinusoidalDrawer where
  "running_drawer =
     \<lparr>palette = map Color hexPalette, colorInterpolation = 1 / 2,
      colorInterpolationSpeed = 1 / 2,
      pos = (3, 4), prevPos = (1, 2), t = 50, tIncrement = 5,
      xWaves = [\<lparr>radius = 425, freq = 10, phase = 0, phaseInc = 1 / 10, mode = ''sin''\<rparr>],
      yWaves = []\<rparr>"

definition pressed_globals :: globals where
  "pressed_globals =
     globals_after_setup\<lparr>mouseIsPressed := True, mouseX := 503, mouseY := 504,
       pmouseX := 501, pmouseY := 502\<rparr>"

definition dragging_drawer :: MouseDrawer where
  "dragging_drawer =
     \<lparr>palette = map Color hexPalette, colorInterpolation = 99 / 100,
      colorInterpolationSpeed = 1 / 100\<rparr>"

text \<open>The options of a drawer with a one-colour palette and a negative colour cursor.\<close>

definition negative_cursor_opts :: opts where
  "negative_cursor_opts =
     no_opts\<lparr>opt_t := Some 100, opt_palette := Some [''#111111ff''],
       opt_colorInterpolation := Some (- 2), opt_colorInterpolationSpeed := Some (1 / 2)\<rparr>"

text \<open>The generator of the end-to-end scenario: one x-wave of radius 100, frequency 1,
  phase 0 and drift 0, no y-wave, time step 1.\<close>

definition scenario_wave :: SinusoidalWave where
  "scenario_wave = \<lparr>radius = 100, freq = 1, phase = 0, phaseInc = 0, mode = ''sin''\<rparr>"

definition scenario_generator :: SinusoidalDrawer where
  "scenario_generator =
     \<lparr>palette = map Color hexPalette, colorInterpolation = 0,
      colorInterpolationSpeed = 1 / 100,
      pos = (0, 0), prevPos = (0, 0), t = 0, tIncrement = 1,
      xWaves = [scenario_wave], yWaves = []\<rparr>"

text \<open>What the specification asks of copy \<open>i\<close>: the unrotated input point turned by
  \<open>i * (360 / n)\<close> degrees about the origin, on its own.\<close>

definition independent_rotation :: "nat \<Rightarrow> nat \<Rightarrow> vec \<Rightarrow> vec" where
  "independent_rotation n i p =
     apply_t (rotation_t (p5_toRadians DEGREES (real i * (360 / real n)))) p"

text \<open>The rotated copy whose vertical reflection the mirrored copy \<open>i\<close> of \<open>n\<close> is.\<close>

definition partner_index :: "nat \<Rightarrow> nat \<Rightarrow> nat" where
  "partner_index n i = (if Suc i = n then i else n - 2 - i)"

text \<open>The globals of a frame whose symmetry slider reads 4.\<close>

definition quarter_turn_globals :: globals where
  "quarter_turn_globals = draw_read_symmetry 4 globals_after_setup"

section \<open>Facts about the runtime model\<close>

lemma mult_t_assoc: "mult_t (mult_t A B) C = mult_t A (mult_t B C)"
  by (simp add: mult_t_def algebra_simps)

lemma mult_t_identity [simp]: "mult_t A identity_t = A" "mult_t identity_t A = A"
  by (simp_all add: mult_t_def identity_t_def)

lemma rotation_t_add: "mult_t (rotation_t a) (rotation_t b) = rotation_t (a + b)"
  by (simp add: mult_t_def rotation_t_def cos_add sin_add algebra_simps)

lemma rotation_t_0 [simp]: "rotation_t 0 = identity_t"
  by (simp add: rotation_t_def identity_t_def)

lemma apply_t_mult: "apply_t (mult_t A B) p = apply_t A (apply_t B p)"
  by (simp add: apply_t_def mult_t_def algebra_simps)

lemma apply_t_scaling_mirror:
  "apply_t (mult_t M (scaling_t 1 (- 1))) p = apply_t M (negate_y p)"
  by (simp add: apply_t_def mult_t_def scaling_t_def negate_y_def)

text \<open>The remainder of a non-negative number stays within \<open>[0, b)\<close>.\<close>

lemma js_rem_nonneg_range:
  assumes "0 \<le> a" "0 < b"
  shows "0 \<le> js_rem a b \<and> js_rem a b < b"
proof -
  have q: "0 \<le> a / b" using assms by simp
  have lo: "real_of_int \<lfloor>a / b\<rfloor> \<le> a / b" by simp
  have hi: "a / b < real_of_int \<lfloor>a / b\<rfloor> + 1" by linarith
  from lo assms have "b * real_of_int \<lfloor>a / b\<rfloor> \<le> b * (a / b)"
    by (intro mult_left_mono) simp_all
  with assms have 1: "b * real_of_int \<lfloor>a / b\<rfloor> \<le> a" by simp
  from hi assms have "b * (a / b) < b * (real_of_int \<lfloor>a / b\<rfloor> + 1)"
    by (intro mult_strict_left_mono) simp_all
  with assms have 2: "a < b * (real_of_int \<lfloor>a / b\<rfloor> + 1)" by simp
  from 1 2 q show ?thesis by (simp add: js_rem_def algebra_simps)
qed

text \<open>The wrap-around of the second index: the successor of a valid index is again one.\<close>

lemma js_rem_succ_index:
  assumes "0 \<le> k" "k < int n"
  shows "\<exists>j. 0 \<le> j \<and> j < int n \<and> js_rem (real_of_int k + 1) (real n) = real_of_int j"
proof (cases "k + 1 = int n")
  case True
  then have "real_of_int k + 1 = real n"
    by (metis of_int_add of_int_1 of_int_of_nat_eq)
  moreover have "0 < n" using assms by auto
  ultimately have "js_rem (real_of_int k + 1) (real n) = real_of_int 0"
    by (simp add: js_rem_def)
  then show ?thesis using assms by (intro exI[of _ 0]) auto
next
  case False
  with assms have lt: "k + 1 < int n" by simp
  have npos: "0 < real n" using assms by auto
  have "real_of_int k + 1 < real n"
    using lt by (metis of_int_add of_int_1 of_int_less_iff of_int_of_nat_eq)
  moreover have "0 \<le> real_of_int k + 1" using assms by simp
  ultimately have "\<lfloor>(real_of_int k + 1) / real n\<rfloor> = 0" "0 \<le> (real_of_int k + 1) / real n"
    using npos by (simp_all add: floor_eq_iff)
  then have "js_rem (real_of_int k + 1) (real n) = real_of_int (k + 1)"
    by (simp add: js_rem_def)
  then show ?thesis using assms lt by (intro exI[of _ "k + 1"]) auto
qed

lemma js_index_int:
  assumes "0 \<le> j" "j < int (length xs)"
  shows "js_index xs (real_of_int j) = Some (xs ! nat j)"
  using assms by (simp add: js_index_def)

lemma calculate_color_ok:
  assumes "pal \<noteq> []" "0 \<le> ci"
  shows "\<exists>c. calculate_color pal ci = Inr c"
proof -
  let ?n = "length pal"
  have npos: "0 < real ?n" using assms by simp
  from js_rem_nonneg_range[OF assms(2) npos]
  have r: "0 \<le> js_rem ci (real ?n)" "js_rem ci (real ?n) < real ?n" by simp_all
  define k where "k = \<lfloor>js_rem ci (real ?n)\<rfloor>"
  have k: "0 \<le> k" "k < int ?n" using r by (simp_all add: k_def floor_less_iff)
  obtain j where j: "0 \<le> j" "j < int ?n" "js_rem (real_of_int k + 1) (real ?n) = real_of_int j"
    using js_rem_succ_index[OF k] by blast
  have "calculate_color pal ci =
          p5_lerpColor (Some (pal ! nat k)) (Some (pal ! nat j))
            (js_rem ci (real ?n) - real_of_int k)"
    using js_index_int[OF k] js_index_int[OF j(1,2)] j(3)
    by (simp add: calculate_color_def Let_def p5_floor_def k_def[symmetric])
  then show ?thesis by (simp add: p5_lerpColor_def)
qed

text \<open>On a one-colour palette the computation returns a blend of the colour with itself
  when the cursor is not negative or is a whole number.\<close>

lemma calculate_color_single:
  assumes "0 \<le> ci \<or> real_of_int \<lfloor>ci\<rfloor> = ci"
  shows "\<exists>amt. calculate_color [c0] ci = Inr (Blend c0 c0 amt)"
proof -
  have f: "p5_floor (js_rem ci 1) = 0"
  proof (cases "0 \<le> ci")
    case True
    have "0 \<le> js_rem ci 1 \<and> js_rem ci 1 < 1"
      by (rule js_rem_nonneg_range) (use True in simp_all)
    then show ?thesis by (simp add: p5_floor_def floor_eq_iff)
  next
    case False
    with assms have "real_of_int \<lfloor>ci\<rfloor> = ci" by simp
    then obtain k where k: "ci = real_of_int k" by metis
    have "js_rem ci 1 = 0" unfolding k by (simp add: js_rem_def)
    then show ?thesis by (simp add: p5_floor_def)
  qed
  have s: "js_rem 1 1 = 0" by (simp add: js_rem_def)
  show ?thesis
    by (simp add: calculate_color_def Let_def f s js_index_def p5_lerpColor_def)
qed

section \<open>Facts about the kaleidoscope loop\<close>

lemma loop_body_eq:
  "loop_body g p q c cv =
     cv\<lparr>ctm := mult_t (ctm cv) (rotation_t (loop_angle g)), strokeColor := c,
        weight := stroke_weight g,
        drawn := drawn cv @ [rotated_copy g (ctm cv) p q c 0, mirrored_copy g (ctm cv) p q c 0]\<rparr>"
  by (simp add: loop_body_def Let_def p5_rotate_def p5_stroke_def p5_strokeWeight_def p5_line_def
      p5_push_def p5_scale_def p5_pop_def rotated_copy_def mirrored_copy_def copy_ctm_def
      loop_angle_def stroke_weight_def apply_t_scaling_mirror)

lemma copy_ctm_shift: "copy_ctm g (mult_t M (rotation_t (loop_angle g))) k = copy_ctm g M (Suc k)"
  by (simp add: copy_ctm_def mult_t_assoc rotation_t_add algebra_simps)

lemma copies_Suc:
  "copies g M p q c (Suc n) =
     [rotated_copy g M p q c 0, mirrored_copy g M p q c 0]
       @ copies g (mult_t M (rotation_t (loop_angle g))) p q c n"
proof -
  have "[0..<Suc n] = 0 # map Suc [0..<n]"
    by (simp add: upt_conv_Cons map_Suc_upt del: upt_Suc)
  then show ?thesis
    by (simp add: copies_def comp_def rotated_copy_def mirrored_copy_def copy_ctm_shift
        del: upt_Suc)
qed

lemma length_copies: "length (copies g M p q c n) = 2 * n"
  by (induction n arbitrary: M) (simp_all add: copies_Suc, simp add: copies_def)

lemma loop_drawn:
  "drawn (kaleidoscope_loop g i p q c cv) = drawn cv @ copies g (ctm cv) p q c (symmetry g - i)"
proof (induction g i p q c cv rule: kaleidoscope_loop.induct)
  case (1 g i p q c cv)
  show ?case
  proof (cases "i < symmetry g")
    case True
    then have n: "symmetry g - i = Suc (symmetry g - Suc i)" by simp
    from True "1.IH" show ?thesis
      by (subst kaleidoscope_loop.simps) (simp add: n copies_Suc loop_body_eq)
  next
    case False
    then show ?thesis
      by (subst kaleidoscope_loop.simps) (simp add: copies_def)
  qed
qed

lemma loop_ctm:
  "ctm (kaleidoscope_loop g i p q c cv) =
     mult_t (ctm cv) (rotation_t (real (symmetry g - i) * loop_angle g))"
proof (induction g i p q c cv rule: kaleidoscope_loop.induct)
  case (1 g i p q c cv)
  show ?case
  proof (cases "i < symmetry g")
    case True
    then have n: "real (symmetry g - i) = 1 + real (symmetry g - Suc i)" by simp
    from True "1.IH" show ?thesis
      by (subst kaleidoscope_loop.simps)
         (simp add: n loop_body_eq mult_t_assoc rotation_t_add algebra_simps)
  next
    case False
    then show ?thesis
      by (subst kaleidoscope_loop.simps) simp
  qed
qed

lemma loop_saved: "saved (kaleidoscope_loop g i p q c cv) = saved cv"
proof (induction g i p q c cv rule: kaleidoscope_loop.induct)
  case (1 g i p q c cv)
  then show ?case
    by (subst kaleidoscope_loop.simps) (simp add: loop_body_eq)
qed

lemma loop_length:
  "length (drawn (kaleidoscope_loop g 0 p q c cv)) = length (drawn cv) + 2 * symmetry g"
  by (simp add: loop_drawn length_copies)

section \<open>Facts about one call of \<open>draw()\<close>\<close>

text \<open>Past the first-frame guard, and with a colour computed, the procedural drawer advances
  the colour cursor and runs the loop on the segment from \<open>pos\<close> to \<open>prevPos\<close>.\<close>

lemma SinusoidalDrawer_draw_loop:
  assumes "tIncrement (SinusoidalDrawer_update g self) < t (SinusoidalDrawer_update g self)"
    and "calculate_color (palette (SinusoidalDrawer_update g self))
           (colorInterpolation (SinusoidalDrawer_update g self)
              + colorInterpolationSpeed (SinusoidalDrawer_update g self)) = Inr c"
  shows "SinusoidalDrawer_draw g (self, cv) =
           Inr ((SinusoidalDrawer_update g self)
                  \<lparr>colorInterpolation := colorInterpolation (SinusoidalDrawer_update g self)
                     + colorInterpolationSpeed (SinusoidalDrawer_update g self)\<rparr>,
                kaleidoscope_loop g 0 (pos (SinusoidalDrawer_update g self))
                  (prevPos (SinusoidalDrawer_update g self)) c cv)"
  using assms by (simp add: SinusoidalDrawer_draw_def Let_def)

lemma SinusoidalDrawer_draw_first:
  assumes "t (SinusoidalDrawer_update g self) \<le> tIncrement (SinusoidalDrawer_update g self)"
  shows "SinusoidalDrawer_draw g (self, cv) =
           Inr ((SinusoidalDrawer_update g self)
                  \<lparr>prevPos := pos (SinusoidalDrawer_update g self)\<rparr>, cv)"
  using assms by (simp add: SinusoidalDrawer_draw_def Let_def)

lemma MouseDrawer_draw_loop:
  assumes "mouseIsPressed g" "0 < mouseX g" "mouseX g < width g" "0 < mouseY g"
    "mouseY g < height g"
    and "calculate_color (palette m) (colorInterpolation m + colorInterpolationSpeed m) = Inr c"
  shows "MouseDrawer_draw g (m, cv) =
           Inr (m\<lparr>colorInterpolation := colorInterpolation m + colorInterpolationSpeed m\<rparr>,
                kaleidoscope_loop g 0 (mouseX g - width g / 2, mouseY g - height g / 2)
                  (pmouseX g - width g / 2, pmouseY g - height g / 2) c cv)"
  using assms by (simp add: MouseDrawer_draw_def Let_def)

lemma hexPalette_at_1:
  "calculate_color (map Color hexPalette) 1 =
     Inr (Blend (Color ''#A7A5A3ff'') (Color ''#E5E5E3ff'') 0)"
  by (simp add: calculate_color_def hexPalette_def Let_def js_rem_def p5_floor_def js_index_def
      p5_lerpColor_def)

text \<open>A cursor of \<open>-1.5\<close> on a one-colour palette: the remainder is \<open>-0.5\<close>, its floor
  \<open>-1\<close>, and \<open>palette[-1]\<close> is \<open>undefined\<close>.\<close>

lemma calculate_color_negative: "calculate_color [c0] (- (3 / 2)) = Inl ColorArgumentError"
proof -
  have c: "\<lceil>- (3 / 2) :: real\<rceil> = - 1" by (simp add: ceiling_eq_iff)
  have r: "js_rem (- (3 / 2)) 1 = - (1 / 2)" by (simp add: js_rem_def c)
  have f: "\<lfloor>- (1 / 2) :: real\<rfloor> = - 1" by (simp add: floor_eq_iff)
  show ?thesis
    by (simp add: calculate_color_def Let_def p5_floor_def r f js_index_def p5_lerpColor_def)
qed

lemma constructed_fields:
  "palette (fst (SinusoidalDrawer_constructor g os rs)) = map Color (usedHexPalette os)"
  "colorInterpolation (fst (SinusoidalDrawer_constructor g os rs)) =
     (case opt_colorInterpolation os of Some v \<Rightarrow> v | None \<Rightarrow> 0)"
  "colorInterpolationSpeed (fst (SinusoidalDrawer_constructor g os rs)) =
     (case opt_colorInterpolationSpeed os of Some v \<Rightarrow> v | None \<Rightarrow> 0.01)"
  "pos (fst (SinusoidalDrawer_constructor g os rs)) = (0, 0)"
  "prevPos (fst (SinusoidalDrawer_constructor g os rs)) = (0, 0)"
  "t (fst (SinusoidalDrawer_constructor g os rs)) = (case opt_t os of Some v \<Rightarrow> v | None \<Rightarrow> 0)"
  "tIncrement (fst (SinusoidalDrawer_constructor g os rs)) =
     (case opt_tIncrement os of Some v \<Rightarrow> v | None \<Rightarrow> 10)"
  "yWaves (fst (SinusoidalDrawer_constructor g os rs)) = []"
  by (simp_all add: SinusoidalDrawer_constructor_def Let_def)

lemma constructed_xWaves:
  "xWaves (fst (SinusoidalDrawer_constructor g os rs)) =
     [\<lparr>radius = drawRadius g, freq = 10, phase = shd rs * TWO_PI, phaseInc = 1 / 10,
       mode = ''sin''\<rparr>]"
  by (simp add: SinusoidalDrawer_constructor_def Let_def SinusoidalWave_constructor_def
      p5_random_def)

lemma update_fields:
  "palette (SinusoidalDrawer_update g self) = palette self"
  "colorInterpolation (SinusoidalDrawer_update g self) = colorInterpolation self"
  "colorInterpolationSpeed (SinusoidalDrawer_update g self) = colorInterpolationSpeed self"
  "tIncrement (SinusoidalDrawer_update g self) = tIncrement self"
  "t (SinusoidalDrawer_update g self) = (if autoPaused g then t self else t self + tIncrement self)"
  "prevPos (SinusoidalDrawer_update g self) = (if autoPaused g then prevPos self else pos self)"
  "pos (SinusoidalDrawer_update g self) =
     (if autoPaused g then pos self
      else (sum_waves g (xWaves self) (t self), sum_waves g (yWaves self) (t self)))"
  "xWaves (SinusoidalDrawer_update g self) =
     (if autoPaused g then xWaves self else map incrementPhase (xWaves self))"
  "yWaves (SinusoidalDrawer_update g self) =
     (if autoPaused g then yWaves self else map incrementPhase (yWaves self))"
  by (simp_all add: SinusoidalDrawer_update_def Let_def)

section \<open>Facts about consecutive frames\<close>

text \<open>While the sketch is not paused, a drawer that started at time 0 is at time
  \<open>k * tIncrement\<close> after \<open>k\<close> frames; only the first frame takes the early return.\<close>

lemma usedHexPalette_nonempty: "usedHexPalette os \<noteq> []"
  by (simp add: usedHexPalette_def hexPalette_def split: option.splits)

lemma draw_step_invariant:
  assumes np: "\<not> autoPaused g"
    and tk: "t s = real k * tIncrement s"
    and inc: "0 < tIncrement s"
    and pal: "palette s \<noteq> []"
    and ci: "0 \<le> colorInterpolation s"
    and sp: "0 \<le> colorInterpolationSpeed s"
  shows "\<exists>s' cv'. SinusoidalDrawer_draw g (s, cv) = Inr (s', cv')
           \<and> t s' = real (Suc k) * tIncrement s' \<and> tIncrement s' = tIncrement s
           \<and> palette s' = palette s \<and> 0 \<le> colorInterpolation s'
           \<and> colorInterpolationSpeed s' = colorInterpolationSpeed s
           \<and> length (drawn cv') = length (drawn cv) + (if k = 0 then 0 else 2 * symmetry g)"
proof (cases "k = 0")
  case True
  with np tk have "t (SinusoidalDrawer_update g s) \<le> tIncrement (SinusoidalDrawer_update g s)"
    by (simp add: update_fields)
  from SinusoidalDrawer_draw_first[OF this, of cv] np tk ci True show ?thesis
    by (simp add: update_fields)
next
  case False
  then have "0 < real k * tIncrement s" using inc by simp
  with np tk have guard:
    "tIncrement (SinusoidalDrawer_update g s) < t (SinusoidalDrawer_update g s)"
    by (simp add: update_fields)
  from ci sp have "0 \<le> colorInterpolation s + colorInterpolationSpeed s" by simp
  from calculate_color_ok[OF pal this] obtain c where
    "calculate_color (palette s) (colorInterpolation s + colorInterpolationSpeed s) = Inr c"
    by blast
  then have "calculate_color (palette (SinusoidalDrawer_update g s))
           (colorInterpolation (SinusoidalDrawer_update g s)
              + colorInterpolationSpeed (SinusoidalDrawer_update g s)) = Inr c"
    by (simp add: update_fields)
  from SinusoidalDrawer_draw_loop[OF guard this, of cv] np tk ci sp False show ?thesis
    by (simp add: update_fields loop_length algebra_simps)
qed

lemma draw_steps_invariant:
  assumes np: "\<not> autoPaused g"
    and t0: "t s0 = 0"
    and inc: "0 < tIncrement s0"
    and pal: "palette s0 \<noteq> []"
    and ci: "0 \<le> colorInterpolation s0"
    and sp: "0 \<le> colorInterpolationSpeed s0"
  shows "\<exists>s' cv'. draw_steps g (Suc k) (s0, cv) = Inr (s', cv')
           \<and> t s' = real (Suc k) * tIncrement s' \<and> tIncrement s' = tIncrement s0
           \<and> palette s' = palette s0 \<and> 0 \<le> colorInterpolation s'
           \<and> colorInterpolationSpeed s' = colorInterpolationSpeed s0
           \<and> length (drawn cv') = length (drawn cv) + 2 * symmetry g * k"
proof (induction k)
  case 0
  from draw_step_invariant[OF np _ inc pal ci sp, of 0 cv] t0 show ?case by simp
next
  case (Suc k)
  then obtain s1 cv1 where s1: "draw_steps g (Suc k) (s0, cv) = Inr (s1, cv1)"
    "t s1 = real (Suc k) * tIncrement s1" "tIncrement s1 = tIncrement s0"
    "palette s1 = palette s0" "0 \<le> colorInterpolation s1"
    "colorInterpolationSpeed s1 = colorInterpolationSpeed s0"
    "length (drawn cv1) = length (drawn cv) + 2 * symmetry g * k"
    by blast
  have "0 < tIncrement s1" "palette s1 \<noteq> []" "0 \<le> colorInterpolationSpeed s1"
    using s1 inc pal sp by simp_all
  from draw_step_invariant[OF np s1(2) this(1,2) s1(5) this(3), of cv1]
  obtain s2 cv2 where s2: "SinusoidalDrawer_draw g (s1, cv1) = Inr (s2, cv2)"
    "t s2 = real (Suc (Suc k)) * tIncrement s2" "tIncrement s2 = tIncrement s1"
    "palette s2 = palette s1" "0 \<le> colorInterpolation s2"
    "colorInterpolationSpeed s2 = colorInterpolationSpeed s1"
    "length (drawn cv2) = length (drawn cv1) + 2 * symmetry g"
    by auto
  have "draw_steps g (Suc (Suc k)) (s0, cv) = Inr (s2, cv2)"
    using s1(1) s2(1) by (simp del: draw_steps.simps add: draw_steps.simps(2)[of g "Suc k"])
  with s1 s2 show ?case
    by (intro exI[of _ s2] exI[of _ cv2]) (simp del: draw_steps.simps add: algebra_simps)
qed

section \<open>Facts about the scenario generator\<close>

lemma sin_one_degree: "0 < 100 * sin (pi / 180)" "100 * sin (pi / 180) < 9 / 4"
proof -
  have "0 < pi / 180" "pi / 180 < pi" by simp_all
  then have "0 < sin (pi / 180)" by (rule sin_gt_zero)
  then show "0 < 100 * sin (pi / 180)" by simp
  have "sin (pi / 180) \<le> pi / 180" by (rule sin_x_le_x) simp
  also have "\<dots> < 4 / 180" using pi_less_4 by simp
  finally show "100 * sin (pi / 180) < 9 / 4" by simp
qed

lemma sin_one_radian: "1 / 2 < sin (1::real)"
proof -
  have "sin (pi / 6) < sin 1"
  proof (rule sin_monotone_2pi)
    show "- (pi / 2) \<le> pi / 6" by simp
    show "pi / 6 < 1" using pi_less_4 by simp
    show "1 \<le> pi / 2" using pi_ge_two by simp
  qed
  then show ?thesis by (simp add: sin_30)
qed

lemma scenario_wave_value:
  "wave_value globals_after_setup scenario_wave tm = sin (tm * pi / 180) * 100"
  by (simp add: wave_value_def scenario_wave_def globals_after_setup_def p5_sin_def
      p5_toRadians_def)

lemma scenario_two_steps:
  "SinusoidalDrawer_update globals_after_setup
     (SinusoidalDrawer_update globals_after_setup scenario_generator) =
   scenario_generator\<lparr>pos := (100 * sin (pi / 180), 0), prevPos := (0, 0), t := 2\<rparr>"
proof -
  have np: "\<not> autoPaused globals_after_setup" by (simp add: globals_after_setup_def)
  have w: "incrementPhase scenario_wave = scenario_wave"
    by (simp add: incrementPhase_def scenario_wave_def)
  have 1: "SinusoidalDrawer_update globals_after_setup scenario_generator =
      scenario_generator\<lparr>t := 1\<rparr>"
    using np
    by (simp add: SinusoidalDrawer_update_def Let_def scenario_generator_def sum_waves_def
        scenario_wave_value w)
  show ?thesis
    unfolding 1 using np
    by (simp add: SinusoidalDrawer_update_def Let_def scenario_generator_def sum_waves_def
        scenario_wave_value w)
qed

lemma scenario_two_draws:
  "\<exists>cv2. draw_steps globals_after_setup (Suc (Suc 0)) (scenario_generator, blank_canvas) =
     Inr (scenario_generator\<lparr>pos := (100 * sin (pi / 180), 0), prevPos := (0, 0), t := 2,
            colorInterpolation := 1 / 100\<rparr>, cv2)"
proof -
  have np: "\<not> autoPaused globals_after_setup" by (simp add: globals_after_setup_def)
  have w: "incrementPhase scenario_wave = scenario_wave"
    by (simp add: incrementPhase_def scenario_wave_def)
  have u1: "SinusoidalDrawer_update globals_after_setup scenario_generator =
      scenario_generator\<lparr>t := 1\<rparr>"
    using np
    by (simp add: SinusoidalDrawer_update_def Let_def scenario_generator_def sum_waves_def
        scenario_wave_value w)
  have d1: "SinusoidalDrawer_draw globals_after_setup (scenario_generator, blank_canvas) =
      Inr (scenario_generator\<lparr>t := 1\<rparr>, blank_canvas)"
    by (simp add: SinusoidalDrawer_draw_def Let_def u1) (simp add: scenario_generator_def)
  have u2: "SinusoidalDrawer_update globals_after_setup (scenario_generator\<lparr>t := 1\<rparr>) =
      scenario_generator\<lparr>pos := (100 * sin (pi / 180), 0), prevPos := (0, 0), t := 2\<rparr>"
    using scenario_two_steps by (simp add: u1)
  obtain c where c: "calculate_color (map Color hexPalette) (1 / 100) = Inr c"
    using calculate_color_ok[of "map Color hexPalette" "1 / 100"]
    by (auto simp add: hexPalette_def)
  have "SinusoidalDrawer_draw globals_after_setup (scenario_generator\<lparr>t := 1\<rparr>, blank_canvas) =
      Inr (scenario_generator\<lparr>pos := (100 * sin (pi / 180), 0), prevPos := (0, 0), t := 2,
            colorInterpolation := 1 / 100\<rparr>,
           kaleidoscope_loop globals_after_setup 0 (100 * sin (pi / 180), 0) (0, 0) c blank_canvas)"
    using c by (simp add: SinusoidalDrawer_draw_def Let_def u2) (simp add: scenario_generator_def)
  with d1 show ?thesis by simp
qed

section \<open>Facts about the individual copies\<close>

lemma copies_nth:
  "i < n \<Longrightarrow> copies g M p q c n ! (2 * i) = rotated_copy g M p q c i
     \<and> copies g M p q c n ! (2 * i + 1) = mirrored_copy g M p q c i"
proof (induction n arbitrary: M i)
  case 0
  then show ?case by simp
next
  case (Suc n)
  show ?case
  proof (cases i)
    case 0
    then show ?thesis by (simp add: copies_Suc)
  next
    case (Suc j)
    with Suc.prems have "j < n" by simp
    from Suc.IH[OF this, of "mult_t M (rotation_t (loop_angle g))"] Suc show ?thesis
      by (simp add: copies_Suc rotated_copy_def mirrored_copy_def copy_ctm_shift)
  qed
qed

lemma loop_new_segments:
  "drop (length (drawn cv)) (drawn (kaleidoscope_loop g 0 p q c cv))
     = copies g (ctm cv) p q c (symmetry g)"
  by (simp add: loop_drawn)

lemma rotate_reflected:
  "apply_t (rotation_t a) (negate_y p) = negate_y (apply_t (rotation_t (- a)) p)"
  by (simp add: apply_t_def rotation_t_def negate_y_def)

lemma quarter_turn: "loop_angle quarter_turn_globals = pi / 2"
  by (simp add: loop_angle_def quarter_turn_globals_def draw_read_symmetry_def
      globals_after_setup_def p5_toRadians_def)

lemma full_turn:
  assumes "0 < n"
  shows "rotation_t (real n * loop_angle (draw_read_symmetry n (setup_angleMode g))) = identity_t"
proof -
  have "real n * (360 / real n * pi / 180) = 2 * pi" using assms by simp
  then show ?thesis
    by (simp add: loop_angle_def draw_read_symmetry_def setup_angleMode_def p5_toRadians_def
        rotation_t_def identity_t_def)
qed

lemma independent_rotation_angle:
  "independent_rotation n i p =
     apply_t (rotation_t (real i * loop_angle (draw_read_symmetry n (setup_angleMode g)))) p"
proof -
  have "loop_angle (draw_read_symmetry n (setup_angleMode g)) = 360 / real n * pi / 180"
    by (simp add: loop_angle_def draw_read_symmetry_def setup_angleMode_def p5_toRadians_def)
  then have "p5_toRadians DEGREES (real i * (360 / real n))
      = real i * loop_angle (draw_read_symmetry n (setup_angleMode g))"
    by (simp add: p5_toRadians_def)
  then show ?thesis by (simp only: independent_rotation_def)
qed

lemma shifted_image:
  fixes f :: "nat \<Rightarrow> 'a"
  assumes "0 < n" "f n = f 0"
  shows "(\<lambda>i. f (Suc i)) ` {..<n} = f ` {..<n}"
proof -
  have "(\<lambda>i. f (Suc i)) ` {..<n} = f ` (Suc ` {..<n})" by (simp add: image_image)
  also have "Suc ` {..<n} = {1..n}" by (rule image_Suc_lessThan)
  also have "{1..n} = insert n {1..<n}" using assms(1) by auto
  also have "f ` (insert n {1..<n}) = insert (f 0) (f ` {1..<n})" using assms(2) by simp
  also have "\<dots> = f ` (insert 0 {1..<n})" by simp
  also have "insert 0 {1..<n} = {..<n}" using assms(1) by auto
  finally show ?thesis .
qed

lemma rotation_t_2pi_minus: "rotation_t (2 * pi - a) = rotation_t (- a)"
  by (simp add: rotation_t_def)

lemma partner_rotation:
  assumes "i < n"
  shows "rotation_t (real (Suc (partner_index n i))
             * loop_angle (draw_read_symmetry n (setup_angleMode g)))
         = rotation_t (- (real (Suc i) * loop_angle (draw_read_symmetry n (setup_angleMode g))))"
proof -
  let ?a = "loop_angle (draw_read_symmetry n (setup_angleMode g))"
  have a: "?a = 360 / real n * pi / 180"
    by (simp add: loop_angle_def draw_read_symmetry_def setup_angleMode_def p5_toRadians_def)
  have full: "real n * ?a = 2 * pi" using assms by (simp add: a)
  have "real (Suc (partner_index n i)) * ?a = 2 * pi - real (Suc i) * ?a
      \<or> (Suc i = n \<and> real (Suc (partner_index n i)) * ?a = 2 * pi)"
  proof (cases "Suc i = n")
    case True
    then show ?thesis using full by (simp add: partner_index_def)
  next
    case False
    with assms have "Suc (partner_index n i) + Suc i = n" by (simp add: partner_index_def)
    then have "real (Suc (partner_index n i)) + real (Suc i) = real n"
      by (metis of_nat_add)
    then have "real (Suc (partner_index n i)) * ?a + real (Suc i) * ?a = real n * ?a"
      by (simp only: distrib_right[symmetric])
    then show ?thesis using full by simp
  qed
  then show ?thesis
  proof
    assume "real (Suc (partner_index n i)) * ?a = 2 * pi - real (Suc i) * ?a"
    then show ?thesis by (simp only: rotation_t_2pi_minus)
  next
    assume h: "Suc i = n \<and> real (Suc (partner_index n i)) * ?a = 2 * pi"
    then have "real (Suc i) * ?a = 2 * pi" using full by simp
    with h show ?thesis by (simp add: rotation_t_def)
  qed
qed

lemma partner_index_less: "i < n \<Longrightarrow> partner_index n i < n"
  by (simp add: partner_index_def)

lemma mirrored_is_reflected_partner:
  assumes "i < n" and g: "g = draw_read_symmetry n (setup_angleMode g0)"
  shows "mirrored_copy g identity_t p q c i =
      (rotated_copy g identity_t p q c (partner_index n i))
        \<lparr>seg_from := negate_y (seg_from (rotated_copy g identity_t p q c (partner_index n i))),
         seg_to := negate_y (seg_to (rotated_copy g identity_t p q c (partner_index n i)))\<rparr>"
  unfolding g
  by (simp add: mirrored_copy_def rotated_copy_def copy_ctm_def rotate_reflected
      partner_rotation[OF assms(1)] del: of_nat_Suc)

section \<open>Facts about the default waves\<close>

lemma update_keeps_y_zero:
  assumes "yWaves s = []" "snd (pos s) = 0"
  shows "yWaves (SinusoidalDrawer_update g s) = [] \<and> snd (pos (SinusoidalDrawer_update g s)) = 0"
  using assms by (simp add: update_fields sum_waves_def)

lemma updates_keep_y_zero:
  assumes "yWaves s = []" "snd (pos s) = 0"
  shows "yWaves ((SinusoidalDrawer_update g ^^ k) s) = []
     \<and> snd (pos ((SinusoidalDrawer_update g ^^ k) s)) = 0"
proof (induction k)
  case 0
  from assms show ?case by simp
next
  case (Suc k)
  then show ?case using update_keeps_y_zero by simp
qed

lemma four_wave_modes:
  "mode (wave1 (fst (SinusoidalDrawer4_constructor g os rs))) = ''sin''"
  "mode (wave2 (fst (SinusoidalDrawer4_constructor g os rs))) = ''sin''"
  "mode (wave3 (fst (SinusoidalDrawer4_constructor g os rs))) = ''cos''"
  "mode (wave4 (fst (SinusoidalDrawer4_constructor g os rs))) = ''cos''"
  by (simp_all add: SinusoidalDrawer4_constructor_def Let_def SinusoidalWave_constructor_def)

lemma four_wave_default:
  "wave3 (fst (SinusoidalDrawer4_constructor globals_after_setup no_opts (sconst 0))) =
     \<lparr>radius = 170, freq = 3 / 2, phase = 0, phaseInc = 1 / 2000, mode = ''cos''\<rparr>"
  "wave4 (fst (SinusoidalDrawer4_constructor globals_after_setup no_opts (sconst 0))) =
     \<lparr>radius = 170, freq = 3, phase = 0, phaseInc = 1 / 2000, mode = ''cos''\<rparr>"
  "t (fst (SinusoidalDrawer4_constructor globals_after_setup no_opts (sconst 0))) = 0"
  by (simp_all add: SinusoidalDrawer4_constructor_def Let_def SinusoidalWave_constructor_def
      no_opts_def globals_after_setup_def random4_def p5_random_def phiInc_default_def)

section \<open>Facts about the time of the drawer\<close>



text \<open>While the sketch is paused, a call past the guard whose colour computation returns
  changes only the colour cursor and adds the \<open>2 * symmetry\<close> copies of the segment between the
  unchanged positions.\<close>

lemma paused_draw_advances_and_emits:
  assumes "autoPaused g" and "tIncrement self < t self" and "palette self \<noteq> []"
    and "0 \<le> colorInterpolation self + colorInterpolationSpeed self"
  shows "\<exists>c cv'.
           calculate_color (palette self)
               (colorInterpolation self + colorInterpolationSpeed self) = Inr c
           \<and> SinusoidalDrawer_draw g (self, cv) =
             Inr (self\<lparr>colorInterpolation :=
                        colorInterpolation self + colorInterpolationSpeed self\<rparr>, cv')
           \<and> drawn cv' = drawn cv @ copies g (ctm cv) (pos self) (prevPos self) c (symmetry g)
           \<and> length (drawn cv') = length (drawn cv) + 2 * symmetry g"
proof -
  from assms(1) have u: "SinusoidalDrawer_update g self = self"
    by (simp add: SinusoidalDrawer_update_def)
  obtain c where c: "calculate_color (palette self)
      (colorInterpolation self + colorInterpolationSpeed self) = Inr c"
    using calculate_color_ok[OF assms(3,4)] by blast
  have "SinusoidalDrawer_draw g (self, cv) =
      Inr (self\<lparr>colorInterpolation := colorInterpolation self + colorInterpolationSpeed self\<rparr>,
           kaleidoscope_loop g 0 (pos self) (prevPos self) c cv)"
    using SinusoidalDrawer_draw_loop[of g self c cv] assms(2) c by (simp add: u)
  with c show ?thesis
    by (intro exI[of _ c] exI[of _ "kaleidoscope_loop g 0 (pos self) (prevPos self) c cv"])
       (simp add: loop_drawn length_copies)
qed

section \<open>Properties of the drawers\<close>

text \<open>
  \<^bold>\<open>C1.\<close>  One call of \<open>draw()\<close> that reaches the kaleidoscope loop adds exactly
  \<open>2 * symmetry\<close> segments to the canvas, for every symmetry order (so in particular for every
  order of at least 2) and every input segment: for each \<open>k < symmetry\<close> one rotated copy followed
  by one mirrored copy.  The procedural drawer reaches the loop when the time is past the
  first-frame guard and the colour computation returns; the mouse drawer when the mouse is
  pressed inside the canvas and the colour computation returns.
\<close>

theorem draw_emits_2n_segments:
  "(s1 = SinusoidalDrawer_update g self \<and> tIncrement s1 < t s1
      \<and> calculate_color (palette s1) (colorInterpolation s1 + colorInterpolationSpeed s1) = Inr c
    \<longrightarrow> (\<exists>self' cv'. SinusoidalDrawer_draw g (self, cv) = Inr (self', cv')
          \<and> drawn cv' = drawn cv @ copies g (ctm cv) (pos s1) (prevPos s1) c (symmetry g)
          \<and> length (drawn cv') = length (drawn cv) + 2 * symmetry g))
   \<and> (mouseIsPressed g \<and> 0 < mouseX g \<and> mouseX g < width g \<and> 0 < mouseY g \<and> mouseY g < height g
      \<and> calculate_color (palette m) (colorInterpolation m + colorInterpolationSpeed m) = Inr c'
    \<longrightarrow> (\<exists>m' cv'. MouseDrawer_draw g (m, cv) = Inr (m', cv')
          \<and> drawn cv' = drawn cv @ copies g (ctm cv)
                 (mouseX g - width g / 2, mouseY g - height g / 2)
                 (pmouseX g - width g / 2, pmouseY g - height g / 2) c' (symmetry g)
          \<and> length (drawn cv') = length (drawn cv) + 2 * symmetry g))"
proof (intro conjI impI)
  assume h: "s1 = SinusoidalDrawer_update g self \<and> tIncrement s1 < t s1
      \<and> calculate_color (palette s1) (colorInterpolation s1 + colorInterpolationSpeed s1) = Inr c"
  then have e: "s1 = SinusoidalDrawer_update g self" and guard: "tIncrement s1 < t s1"
    and col: "calculate_color (palette s1) (colorInterpolation s1 + colorInterpolationSpeed s1)
                = Inr c"
    by blast+
  have "SinusoidalDrawer_draw g (self, cv) =
      Inr (s1\<lparr>colorInterpolation := colorInterpolation s1 + colorInterpolationSpeed s1\<rparr>,
           kaleidoscope_loop g 0 (pos s1) (prevPos s1) c cv)"
    unfolding e by (rule SinusoidalDrawer_draw_loop[OF guard[unfolded e] col[unfolded e]])
  then show "\<exists>self' cv'. SinusoidalDrawer_draw g (self, cv) = Inr (self', cv')
          \<and> drawn cv' = drawn cv @ copies g (ctm cv) (pos s1) (prevPos s1) c (symmetry g)
          \<and> length (drawn cv') = length (drawn cv) + 2 * symmetry g"
    by (simp add: loop_drawn length_copies)
next
  assume h: "mouseIsPressed g \<and> 0 < mouseX g \<and> mouseX g < width g \<and> 0 < mouseY g
      \<and> mouseY g < height g
      \<and> calculate_color (palette m) (colorInterpolation m + colorInterpolationSpeed m) = Inr c'"
  then have "MouseDrawer_draw g (m, cv) =
      Inr (m\<lparr>colorInterpolation := colorInterpolation m + colorInterpolationSpeed m\<rparr>,
           kaleidoscope_loop g 0 (mouseX g - width g / 2, mouseY g - height g / 2)
             (pmouseX g - width g / 2, pmouseY g - height g / 2) c' cv)"
    by (intro MouseDrawer_draw_loop) blast+
  then show "\<exists>m' cv'. MouseDrawer_draw g (m, cv) = Inr (m', cv')
          \<and> drawn cv' = drawn cv @ copies g (ctm cv)
                 (mouseX g - width g / 2, mouseY g - height g / 2)
                 (pmouseX g - width g / 2, pmouseY g - height g / 2) c' (symmetry g)
          \<and> length (drawn cv') = length (drawn cv) + 2 * symmetry g"
    by (simp add: loop_drawn length_copies)
qed

theorem draw_emits_2n_segments_witness:
  "tIncrement (SinusoidalDrawer_update pressed_globals running_drawer)
     < t (SinusoidalDrawer_update pressed_globals running_drawer)
   \<and> (\<exists>self' cv'. SinusoidalDrawer_draw pressed_globals (running_drawer, blank_canvas)
        = Inr (self', cv') \<and> length (drawn cv') = 24)
   \<and> mouseIsPressed pressed_globals
   \<and> (\<exists>m' cv'. MouseDrawer_draw pressed_globals
         (dragging_drawer, blank_canvas) = Inr (m', cv')
      \<and> length (drawn cv') = 24)"
proof -
  note a = hexPalette_at_1
  have b: "palette (SinusoidalDrawer_update pressed_globals running_drawer) = map Color hexPalette"
    "colorInterpolation (SinusoidalDrawer_update pressed_globals running_drawer) = 1 / 2"
    "colorInterpolationSpeed (SinusoidalDrawer_update pressed_globals running_drawer) = 1 / 2"
    "t (SinusoidalDrawer_update pressed_globals running_drawer) = 55"
    "tIncrement (SinusoidalDrawer_update pressed_globals running_drawer) = 5"
    by (simp_all add: SinusoidalDrawer_update_def globals_after_setup_def pressed_globals_def
        running_drawer_def Let_def)
  have g: "symmetry pressed_globals = 12"
    "mouseIsPressed pressed_globals" "mouseX pressed_globals = 503"
    "mouseY pressed_globals = 504" "width pressed_globals = 1000"
    "height pressed_globals = 1000" "drawn blank_canvas = []"
    by (simp_all add: globals_after_setup_def pressed_globals_def blank_canvas_def)
  have m: "palette dragging_drawer = map Color hexPalette"
    "colorInterpolation dragging_drawer = 99 / 100"
    "colorInterpolationSpeed dragging_drawer = 1 / 100"
    by (simp_all add: dragging_drawer_def)
  note T = draw_emits_2n_segments [of "SinusoidalDrawer_update pressed_globals running_drawer"
        pressed_globals running_drawer "Blend (Color ''#A7A5A3ff'') (Color ''#E5E5E3ff'') 0"
        blank_canvas dragging_drawer "Blend (Color ''#A7A5A3ff'') (Color ''#E5E5E3ff'') 0"]
  have S: "\<exists>self' cv'. SinusoidalDrawer_draw pressed_globals (running_drawer, blank_canvas)
        = Inr (self', cv') \<and> length (drawn cv') = 24"
    using T[THEN conjunct1] by (auto simp add: a b g)
  have M: "\<exists>m' cv'. MouseDrawer_draw pressed_globals
         (dragging_drawer, blank_canvas) = Inr (m', cv')
      \<and> length (drawn cv') = 24"
    using T[THEN conjunct2] by (auto simp add: a g m)
  show ?thesis using S M by (simp add: b g)
qed

text \<open>
  \<^bold>\<open>C4.\<close>  While \<open>autoPaused\<close> is set, \<open>SinusoidalDrawer.update\<close> returns the drawer as it was:
  the time, the current and the previous position and the phase of every x- and y-wave are
  unchanged.  The same holds for the four-wave drawer of \<open>src/sketch.js\<close>.
\<close>

theorem paused_update_is_noop:
  assumes "autoPaused g"
  shows "SinusoidalDrawer_update g self = self
     \<and> t (SinusoidalDrawer_update g self) = t self
     \<and> pos (SinusoidalDrawer_update g self) = pos self
     \<and> prevPos (SinusoidalDrawer_update g self) = prevPos self
     \<and> map phase (xWaves (SinusoidalDrawer_update g self)) = map phase (xWaves self)
     \<and> map phase (yWaves (SinusoidalDrawer_update g self)) = map phase (yWaves self)
     \<and> SinusoidalDrawer4_update g self4 = self4"
  using assms by (simp add: SinusoidalDrawer_update_def SinusoidalDrawer4_update_def)

theorem paused_update_is_noop_witness:
  "autoPaused (toggleAutoPause globals_after_setup)
   \<and> SinusoidalDrawer_update (toggleAutoPause globals_after_setup) running_drawer = running_drawer
   \<and> t (SinusoidalDrawer_update (toggleAutoPause globals_after_setup) running_drawer) = 50"
  using paused_update_is_noop [of "toggleAutoPause globals_after_setup" running_drawer]
  by (simp add: toggleAutoPause_def globals_after_setup_def running_drawer_def)

text \<open>
  \<^bold>\<open>C9.\<close>  \<open>update()\<close> and \<open>draw()\<close> of the abstract \<open>ProceduralDrawer\<close> always throw an
  \<open>Error\<close>, also when \<open>draw()\<close> is reached through the dispatch on the current drawer.
\<close>

theorem abstract_drawer_throws:
  "ProceduralDrawer_update self = Inl (Error ''Method 'update()' must be implemented by subclass'')
   \<and> ProceduralDrawer_draw self' = Inl (Error ''Method 'draw()' must be implemented by subclass'')
   \<and> drawer_draw g (Procedural, cv) =
        Inl (Error ''Method 'draw()' must be implemented by subclass'')"
  by (simp add: ProceduralDrawer_update_def ProceduralDrawer_draw_def drawer_draw_def)

text \<open>
  \<^bold>\<open>C8.\<close>  For a palette of length 1 the colour computation of a frame (the cursor advanced
  by the speed, the remainder, the two index lookups, the blend) is to return that single colour
  without throwing, whatever the cursor and the speed.  It does while the advanced cursor is
  not negative or is a whole number.  On a negative cursor with a fractional part the
  remainder, which was to wrap the cursor into the bounds of the palette, keeps the sign of
  the cursor: a drawer built with the one-colour palette, the cursor at \<open>-2\<close> and the speed at
  \<open>0.5\<close> computes the remainder \<open>-0.5\<close> and the first index \<open>-1\<close>, and its \<open>draw()\<close> throws.
\<close>

theorem single_palette_negative_cursor_throws:
  "length (palette (fst (SinusoidalDrawer_constructor globals_after_setup negative_cursor_opts
       (sconst 0)))) = 1
   \<and> SinusoidalDrawer_draw globals_after_setup
       (fst (SinusoidalDrawer_constructor globals_after_setup negative_cursor_opts (sconst 0)),
        blank_canvas) = Inl ColorArgumentError"
  by (simp add: SinusoidalDrawer_draw_def Let_def update_fields constructed_fields
      negative_cursor_opts_def no_opts_def usedHexPalette_def globals_after_setup_def
      calculate_color_negative)

text \<open>
  \<^bold>\<open>C10.\<close>  While \<open>autoPaused\<close> is set and the drawer is past its first step
  (\<open>tIncrement < t\<close>), every call of \<open>SinusoidalDrawer.draw\<close> is to advance the colour cursor by
  the colour speed and to add the \<open>2 * symmetry\<close> copies of the segment between the unchanged
  \<open>pos\<close> and \<open>prevPos\<close>.  It does whenever the colour computation returns.  On the paused
  drawer with the cursor at \<open>-2\<close> and the speed at \<open>0.5\<close>, at time 100 with time step 10, the
  colour computation throws before the loop, and the call draws nothing.
\<close>

theorem paused_draw_negative_cursor_throws:
  "autoPaused (toggleAutoPause globals_after_setup)
   \<and> tIncrement (fst (SinusoidalDrawer_constructor globals_after_setup negative_cursor_opts
         (sconst 0)))
       < t (fst (SinusoidalDrawer_constructor globals_after_setup negative_cursor_opts (sconst 0)))
   \<and> SinusoidalDrawer_draw (toggleAutoPause globals_after_setup)
       (fst (SinusoidalDrawer_constructor globals_after_setup negative_cursor_opts (sconst 0)),
        blank_canvas) = Inl ColorArgumentError"
  by (simp add: SinusoidalDrawer_draw_def Let_def update_fields constructed_fields
      negative_cursor_opts_def no_opts_def usedHexPalette_def globals_after_setup_def
      toggleAutoPause_def calculate_color_negative)




text \<open>
  \<^bold>\<open>C2.\<close>  \<open>SinusoidalWave.value(t)\<close> is a function of the wave and \<open>t\<close> alone.  Once \<open>setup\<close>
  has set the angle mode to degrees it returns \<open>radius * sin (t * freq + phase)\<close> for mode
  \<open>sin\<close>, and the cosine otherwise, with the argument read in degrees.  For the generator with
  one x-wave (radius 100, frequency 1, phase 0, drift 0), no y-wave and time step 1, the second
  step leaves \<open>pos\<close> at \<open>(100 * sin (pi / 180), 0)\<close>, the sine of one degree, a value between 0
  and 2.25; the first call of \<open>draw()\<close> draws nothing and the second draws from that position
  to \<open>prevPos = (0, 0)\<close>.
\<close>

theorem wave_value_in_degrees:
  "wave_value (setup_angleMode g) w tm =
     (if mode w = ''sin'' then radius w * sin ((tm * freq w + phase w) * pi / 180)
      else radius w * cos ((tm * freq w + phase w) * pi / 180))
   \<and> pos (SinusoidalDrawer_update globals_after_setup
        (SinusoidalDrawer_update globals_after_setup scenario_generator)) = (100 * sin (pi / 180), 0)
   \<and> (\<exists>cv2. draw_steps globals_after_setup (Suc (Suc 0)) (scenario_generator, blank_canvas) =
         Inr (scenario_generator\<lparr>pos := (100 * sin (pi / 180), 0), prevPos := (0, 0), t := 2,
                colorInterpolation := 1 / 100\<rparr>, cv2))
   \<and> 0 < 100 * sin (pi / 180) \<and> 100 * sin (pi / 180) < 9 / 4"
  using sin_one_degree scenario_two_draws
  by (simp add: wave_value_def setup_angleMode_def p5_sin_def p5_cos_def p5_toRadians_def
      scenario_two_steps)

text \<open>Read in radians the wave would be at \<open>100 * sin 1 > 50\<close> at time 1; the sketch has it
  below 2.25.\<close>

theorem wave_value_not_in_radians:
  "wave_value globals_after_setup scenario_wave 1
     \<noteq> radius scenario_wave * sin (1 * freq scenario_wave + phase scenario_wave)
   \<and> fst (pos (SinusoidalDrawer_update globals_after_setup
        (SinusoidalDrawer_update globals_after_setup scenario_generator))) < 9 / 4"
proof -
  have "wave_value globals_after_setup scenario_wave 1 < 9 / 4"
    using sin_one_degree(2) by (simp add: scenario_wave_value)
  moreover have "50 < radius scenario_wave * sin (1 * freq scenario_wave + phase scenario_wave)"
    using sin_one_radian by (simp add: scenario_wave_def)
  ultimately show ?thesis
    using sin_one_degree(2) by (simp add: scenario_two_steps)
qed

text \<open>
  \<^bold>\<open>C5.\<close>  For every input segment and every copy index \<open>i < symmetry\<close>, the rotated copy is
  the input under the transform after \<open>i + 1\<close> rotations, and the mirrored copy is the input
  with the y-coordinates of both endpoints negated under that same transform: the reflection
  is taken before the rotation.  Seen from the frame the loop started in, the mirrored copy is
  the vertical reflection of the input turned by the opposite angle.  With the rotation step
  \<open>360 / symmetry\<close> degrees of a frame and the identity as starting transform, that makes it
  the vertical reflection (y negated, x kept) of the rotated copy with the partner index:
  the last copy is its own partner, copy \<open>i\<close> before it is paired with copy
  \<open>symmetry - 2 - i\<close>.
\<close>


theorem mirrored_copy_reflects_input:
  assumes "i < symmetry g"
  shows "seg_from (drop (length (drawn cv)) (drawn (kaleidoscope_loop g 0 p q c cv)) ! (2 * i))
           = apply_t (mult_t (ctm cv) (rotation_t (real (i + 1) * loop_angle g))) p
       \<and> seg_to (drop (length (drawn cv)) (drawn (kaleidoscope_loop g 0 p q c cv)) ! (2 * i))
           = apply_t (mult_t (ctm cv) (rotation_t (real (i + 1) * loop_angle g))) q
       \<and> seg_from (drop (length (drawn cv)) (drawn (kaleidoscope_loop g 0 p q c cv)) ! (2 * i + 1))
           = apply_t (mult_t (ctm cv) (rotation_t (real (i + 1) * loop_angle g))) (negate_y p)
       \<and> seg_to (drop (length (drawn cv)) (drawn (kaleidoscope_loop g 0 p q c cv)) ! (2 * i + 1))
           = apply_t (mult_t (ctm cv) (rotation_t (real (i + 1) * loop_angle g))) (negate_y q)
       \<and> apply_t (mult_t (ctm cv) (rotation_t (real (i + 1) * loop_angle g))) (negate_y p)
           = apply_t (ctm cv) (negate_y (apply_t (rotation_t (- (real (i + 1) * loop_angle g))) p))
       \<and> apply_t (mult_t (ctm cv) (rotation_t (real (i + 1) * loop_angle g))) (negate_y q)
           = apply_t (ctm cv) (negate_y (apply_t (rotation_t (- (real (i + 1) * loop_angle g))) q))
       \<and> (g = draw_read_symmetry (symmetry g) (setup_angleMode g0) \<and> ctm cv = identity_t \<longrightarrow>
            seg_from (drop (length (drawn cv)) (drawn (kaleidoscope_loop g 0 p q c cv)) ! (2 * i + 1))
              = negate_y (seg_from (drop (length (drawn cv))
                  (drawn (kaleidoscope_loop g 0 p q c cv)) ! (2 * partner_index (symmetry g) i)))
          \<and> seg_to (drop (length (drawn cv)) (drawn (kaleidoscope_loop g 0 p q c cv)) ! (2 * i + 1))
              = negate_y (seg_to (drop (length (drawn cv))
                  (drawn (kaleidoscope_loop g 0 p q c cv)) ! (2 * partner_index (symmetry g) i))))"
proof -
  note nth_i = copies_nth[OF assms, of g "ctm cv" p q c]
  have first: "seg_from (drop (length (drawn cv)) (drawn (kaleidoscope_loop g 0 p q c cv)) ! (2 * i))
           = apply_t (mult_t (ctm cv) (rotation_t (real (i + 1) * loop_angle g))) p
       \<and> seg_to (drop (length (drawn cv)) (drawn (kaleidoscope_loop g 0 p q c cv)) ! (2 * i))
           = apply_t (mult_t (ctm cv) (rotation_t (real (i + 1) * loop_angle g))) q
       \<and> seg_from (drop (length (drawn cv)) (drawn (kaleidoscope_loop g 0 p q c cv)) ! (2 * i + 1))
           = apply_t (mult_t (ctm cv) (rotation_t (real (i + 1) * loop_angle g))) (negate_y p)
       \<and> seg_to (drop (length (drawn cv)) (drawn (kaleidoscope_loop g 0 p q c cv)) ! (2 * i + 1))
           = apply_t (mult_t (ctm cv) (rotation_t (real (i + 1) * loop_angle g))) (negate_y q)
       \<and> apply_t (mult_t (ctm cv) (rotation_t (real (i + 1) * loop_angle g))) (negate_y p)
           = apply_t (ctm cv) (negate_y (apply_t (rotation_t (- (real (i + 1) * loop_angle g))) p))
       \<and> apply_t (mult_t (ctm cv) (rotation_t (real (i + 1) * loop_angle g))) (negate_y q)
           = apply_t (ctm cv) (negate_y (apply_t (rotation_t (- (real (i + 1) * loop_angle g))) q))"
    using nth_i
    by (simp add: loop_new_segments rotated_copy_def mirrored_copy_def copy_ctm_def apply_t_mult
        rotate_reflected)
  have second: "seg_from (drop (length (drawn cv)) (drawn (kaleidoscope_loop g 0 p q c cv)) ! (2 * i + 1))
              = negate_y (seg_from (drop (length (drawn cv))
                  (drawn (kaleidoscope_loop g 0 p q c cv)) ! (2 * partner_index (symmetry g) i)))
          \<and> seg_to (drop (length (drawn cv)) (drawn (kaleidoscope_loop g 0 p q c cv)) ! (2 * i + 1))
              = negate_y (seg_to (drop (length (drawn cv))
                  (drawn (kaleidoscope_loop g 0 p q c cv)) ! (2 * partner_index (symmetry g) i)))"
    if h: "g = draw_read_symmetry (symmetry g) (setup_angleMode g0) \<and> ctm cv = identity_t"
  proof -
    from h have e: "g = draw_read_symmetry (symmetry g) (setup_angleMode g0)"
      and M: "ctm cv = identity_t" by blast+
    note nth_j = copies_nth[OF partner_index_less[OF assms], of g "ctm cv" p q c]
    note pair = mirrored_is_reflected_partner[OF assms e, of p q c]
    show ?thesis
      using nth_i nth_j by (simp add: loop_new_segments M pair)
  qed
  from first second show ?thesis by blast
qed

theorem mirrored_copy_reflects_input_witness:
  "(0::nat) < symmetry quarter_turn_globals
   \<and> quarter_turn_globals =
       draw_read_symmetry (symmetry quarter_turn_globals) (setup_angleMode globals_after_setup)
   \<and> ctm blank_canvas = identity_t
   \<and> partner_index (symmetry quarter_turn_globals) 0 = 2
   \<and> seg_from (drawn (kaleidoscope_loop quarter_turn_globals 0 (1, 2) (3, 4) black
         blank_canvas) ! 1) = (2, 1)
   \<and> seg_from (drawn (kaleidoscope_loop quarter_turn_globals 0 (1, 2) (3, 4) black
         blank_canvas) ! 4) = (2, - 1)"
proof -
  let ?out = "drawn (kaleidoscope_loop quarter_turn_globals 0 (1, 2) (3, 4) black
         blank_canvas)"
  have n: "(0::nat) < symmetry quarter_turn_globals" "symmetry quarter_turn_globals = 4"
    by (simp_all add: quarter_turn_globals_def draw_read_symmetry_def)
  have e: "quarter_turn_globals =
       draw_read_symmetry (symmetry quarter_turn_globals) (setup_angleMode globals_after_setup)"
    by (simp add: quarter_turn_globals_def setup_angleMode_def globals_after_setup_def
        draw_read_symmetry_def)
  have M: "ctm blank_canvas = identity_t" "drawn blank_canvas = []"
    by (simp_all add: blank_canvas_def)
  have pi: "partner_index 4 0 = 2" by (simp add: partner_index_def)
  note T = mirrored_copy_reflects_input[OF n(1), of blank_canvas "(1, 2)" "(3, 4)"
      "black" globals_after_setup]
  have A: "seg_from (?out ! 1) = (2, 1)"
    using T by (simp add: quarter_turn M apply_t_def rotation_t_def negate_y_def)
  have P: "quarter_turn_globals =
       draw_read_symmetry (symmetry quarter_turn_globals) (setup_angleMode globals_after_setup)
     \<and> ctm blank_canvas = identity_t"
    using e M(1) by (rule conjI)
  from T have "quarter_turn_globals =
       draw_read_symmetry (symmetry quarter_turn_globals) (setup_angleMode globals_after_setup)
     \<and> ctm blank_canvas = identity_t \<longrightarrow>
       seg_from (drop (length (drawn blank_canvas)) ?out ! (2 * 0 + 1))
         = negate_y (seg_from (drop (length (drawn blank_canvas)) ?out
             ! (2 * partner_index (symmetry quarter_turn_globals) 0)))
       \<and> seg_to (drop (length (drawn blank_canvas)) ?out ! (2 * 0 + 1))
         = negate_y (seg_to (drop (length (drawn blank_canvas)) ?out
             ! (2 * partner_index (symmetry quarter_turn_globals) 0)))"
    by blast
  from this[THEN mp, OF P] have B: "seg_from (?out ! 1) = negate_y (seg_from (?out ! 4))"
    by (simp add: n(2) pi M(2))
  have C: "seg_from (?out ! 4) = (2, - 1)"
    using A B by (cases "seg_from (?out ! 4)") (simp add: negate_y_def)
  from n e M pi A C show ?thesis by simp
qed

text \<open>With four copies the first rotation is a quarter turn: the segment from \<open>(1, 2)\<close> is
  drawn from \<open>(-2, 1)\<close>, its mirrored copy from \<open>(2, 1)\<close>, which is not \<open>(-2, -1)\<close>.\<close>

theorem mirrored_copy_not_reflection_of_rotated:
  "seg_from (drawn (kaleidoscope_loop quarter_turn_globals 0 (1, 2) (3, 4) black
       blank_canvas) ! 0) = (- 2, 1)
   \<and> seg_from (drawn (kaleidoscope_loop quarter_turn_globals 0 (1, 2) (3, 4) black
       blank_canvas) ! 1) = (2, 1)
   \<and> seg_from (drawn (kaleidoscope_loop quarter_turn_globals 0 (1, 2) (3, 4) black
       blank_canvas) ! 1)
     \<noteq> negate_y (seg_from (drawn (kaleidoscope_loop quarter_turn_globals 0 (1, 2) (3, 4)
       black blank_canvas) ! 0))"
proof -
  have n: "symmetry quarter_turn_globals = 4"
    by (simp add: quarter_turn_globals_def draw_read_symmetry_def)
  have d: "drawn (kaleidoscope_loop quarter_turn_globals 0 (1, 2) (3, 4) black blank_canvas)
      = copies quarter_turn_globals identity_t (1, 2) (3, 4) black 4"
    by (simp add: loop_drawn n blank_canvas_def)
  have "(0::nat) < 4" by simp
  from copies_nth[OF this, of quarter_turn_globals identity_t "(1, 2)" "(3, 4)" "black"]
  show ?thesis
    by (simp add: d rotated_copy_def mirrored_copy_def copy_ctm_def quarter_turn apply_t_def
        rotation_t_def negate_y_def)
qed

text \<open>
  \<^bold>\<open>C6.\<close>  With the rotation step \<open>360 / n\<close> degrees of a frame (\<open>n > 0\<close>), rotating the
  running transform once per iteration draws the same set of rotated copies as turning the
  unrotated input independently by \<open>i * (360 / n)\<close> degrees for \<open>i = 0 .. n - 1\<close>, both taken
  in the frame the loop started from; and after the \<open>n\<close> iterations the transform is back at
  its starting value.
\<close>

theorem accumulated_rotation_equals_independent:
  assumes "0 < n" and "g = draw_read_symmetry n (setup_angleMode g0)"
  shows "(\<lambda>i. (seg_from (drop (length (drawn cv)) (drawn (kaleidoscope_loop g 0 p q c cv)) ! (2 * i)),
               seg_to (drop (length (drawn cv)) (drawn (kaleidoscope_loop g 0 p q c cv)) ! (2 * i))))
            ` {..<n}
         = (\<lambda>i. (apply_t (ctm cv) (independent_rotation n i p),
                  apply_t (ctm cv) (independent_rotation n i q))) ` {..<n}
       \<and> ctm (kaleidoscope_loop g 0 p q c cv) = ctm cv"
proof
  define f where "f i = (apply_t (ctm cv) (independent_rotation n i p),
                  apply_t (ctm cv) (independent_rotation n i q))" for i
  have sym: "symmetry g = n" using assms(2) by (simp add: draw_read_symmetry_def)
  have turn: "rotation_t (real n * loop_angle g) = identity_t"
    unfolding assms(2) by (rule full_turn[OF assms(1)])
  have ind: "independent_rotation n i r = apply_t (rotation_t (real i * loop_angle g)) r" for i r
    unfolding assms(2) by (rule independent_rotation_angle)
  have "(seg_from (drop (length (drawn cv)) (drawn (kaleidoscope_loop g 0 p q c cv)) ! (2 * i)),
         seg_to (drop (length (drawn cv)) (drawn (kaleidoscope_loop g 0 p q c cv)) ! (2 * i)))
        = f (Suc i)" if "i < n" for i
    using copies_nth[of i n g "ctm cv" p q c] that
    by (simp add: loop_new_segments sym rotated_copy_def copy_ctm_def apply_t_mult f_def ind)
  then have "(\<lambda>i. (seg_from (drop (length (drawn cv)) (drawn (kaleidoscope_loop g 0 p q c cv)) ! (2 * i)),
               seg_to (drop (length (drawn cv)) (drawn (kaleidoscope_loop g 0 p q c cv)) ! (2 * i))))
            ` {..<n} = (\<lambda>i. f (Suc i)) ` {..<n}"
    by (intro image_cong) simp_all
  also have "\<dots> = f ` {..<n}"
  proof (rule shifted_image[OF assms(1)])
    show "f n = f 0" by (simp add: f_def ind turn)
  qed
  finally show "(\<lambda>i. (seg_from (drop (length (drawn cv)) (drawn (kaleidoscope_loop g 0 p q c cv)) ! (2 * i)),
               seg_to (drop (length (drawn cv)) (drawn (kaleidoscope_loop g 0 p q c cv)) ! (2 * i))))
            ` {..<n}
         = (\<lambda>i. (apply_t (ctm cv) (independent_rotation n i p),
                  apply_t (ctm cv) (independent_rotation n i q))) ` {..<n}"
    by (simp add: f_def)
  show "ctm (kaleidoscope_loop g 0 p q c cv) = ctm cv"
    by (simp add: loop_ctm sym turn)
qed

theorem accumulated_rotation_equals_independent_witness:
  "(0::nat) < 4
   \<and> quarter_turn_globals = draw_read_symmetry 4 (setup_angleMode globals_after_setup)
   \<and> ctm (kaleidoscope_loop quarter_turn_globals 0 (1, 2) (3, 4) black blank_canvas)
       = identity_t"
proof -
  have e: "quarter_turn_globals = draw_read_symmetry 4 (setup_angleMode globals_after_setup)"
    by (simp add: quarter_turn_globals_def setup_angleMode_def globals_after_setup_def)
  have "(0::nat) < 4" by simp
  from accumulated_rotation_equals_independent[OF this e, of blank_canvas "(1, 2)" "(3, 4)"
      "black"] e
  show ?thesis by (simp add: blank_canvas_def)
qed

text \<open>
  \<^bold>\<open>C7.\<close>  In the list-based drawer of \<open>src/unnamed/part_000\<close>, when the caller supplies no
  oscillator lists, the constructor builds exactly one x-wave and no y-wave, so the
  y-coordinate of the position is 0 after any number of updates.
\<close>

theorem default_waves_one_x_no_y:
  assumes "opt_xWaves os = None" and "opt_yWaves os = None"
  shows "length (xWaves (fst (SinusoidalDrawer_constructor g os rs))) = 1
   \<and> yWaves (fst (SinusoidalDrawer_constructor g os rs)) = []
   \<and> snd (pos ((SinusoidalDrawer_update g' ^^ k) (fst (SinusoidalDrawer_constructor g os rs)))) = 0"
  using updates_keep_y_zero[where s = "fst (SinusoidalDrawer_constructor g os rs)" and g = g'
      and k = k]
  by (simp add: constructed_fields constructed_xWaves)

theorem default_waves_one_x_no_y_witness:
  "opt_xWaves no_opts = None \<and> opt_yWaves no_opts = None
   \<and> length (xWaves (fst (SinusoidalDrawer_constructor globals_after_setup no_opts (sconst 0)))) = 1
   \<and> yWaves (fst (SinusoidalDrawer_constructor globals_after_setup no_opts (sconst 0))) = []
   \<and> snd (pos ((SinusoidalDrawer_update globals_after_setup ^^ 3)
        (fst (SinusoidalDrawer_constructor globals_after_setup no_opts (sconst 0))))) = 0"
proof -
  have h: "opt_xWaves no_opts = None" "opt_yWaves no_opts = None"
    by (simp_all add: no_opts_def)
  from default_waves_one_x_no_y[OF h, where g = globals_after_setup and rs = "sconst 0"
      and g' = globals_after_setup and k = 3] h
  show ?thesis by blast
qed

text \<open>The four-wave drawer of \<open>src/sketch.js\<close> has two cosine waves for y: with the default
  options and all random draws at 0 it is at \<open>y = 340\<close> after its first update.\<close>

theorem four_wave_default_has_y_waves:
  "snd (pos (SinusoidalDrawer4_update globals_after_setup
      (fst (SinusoidalDrawer4_constructor globals_after_setup no_opts (sconst 0))))) \<noteq> 0"
proof -
  have np: "\<not> autoPaused globals_after_setup" "angleMode globals_after_setup = DEGREES"
    by (simp_all add: globals_after_setup_def)
  have "snd (pos (SinusoidalDrawer4_update globals_after_setup
      (fst (SinusoidalDrawer4_constructor globals_after_setup no_opts (sconst 0))))) = 340"
    using np
    by (simp add: SinusoidalDrawer4_update_def Let_def four_wave_default wave_value_def
        p5_cos_def p5_toRadians_def)
  then show ?thesis by simp
qed

end
